theory Spec2Isabelle
  imports Complex_Main
begin

section \<open>JavaScript values shared by the two pages\<close>

text \<open>
  The repository holds two versions of the page component: \<open>ChatTranslator\<close>
  (src/app/page.js) and \<open>Home\<close> (src/unnamed/part_000). Both are React components
  whose handlers are \<open>async\<close> functions. A handler is embedded as one function for the
  part that runs when it is invoked, up to its first \<open>await\<close>, and one function for each
  resumption after an \<open>await\<close>; a resumption takes what the awaited promise settled to
  and the state of the component at that moment. State updates of the form
  \<open>setX(prev => f(prev))\<close> are applied to the state at the time of the update; the
  variables a handler reads from its closure (\<open>messages\<close>, \<open>targetLanguage\<close>,
  \<open>inputText\<close>) are the values of the state when the handler was invoked.
\<close>

text \<open>
  \<open>String.prototype.trim\<close> removes white space and line terminators from both ends.
  Strings are lists of 8-bit characters here, so the white space of the model is the
  white space below code point 256.
\<close>

definition isWhiteSpace :: "char \<Rightarrow> bool" where
  "isWhiteSpace c \<longleftrightarrow>
     c \<in> {CHR 0x09, CHR 0x0A, CHR 0x0B, CHR 0x0C, CHR 0x0D, CHR 0x20, CHR 0xA0}"

definition trim :: "string \<Rightarrow> string" where
  "trim s = rev (dropWhile isWhiteSpace (rev (dropWhile isWhiteSpace s)))"

text \<open>
  What an awaited promise settles to: a value, or a rejection whose reason may carry a
  \<open>message\<close>.
\<close>

datatype 'a settled = Resolved 'a | Rejected "string option"

text \<open>
  What the handlers take from the browser: whether \<open>self.translation\<close> (with
  \<open>createDetector\<close> and \<open>createTranslator\<close>) exists, the three services below
  \<open>window.ai\<close>, \<open>Intl.DisplayNames([''en''], {type: ''language''}).of\<close> (\<open>None\<close> when
  it throws a RangeError), \<open>Number.prototype.toFixed(1)\<close>, and the text of the
  TypeError the engine raises when a property of \<open>undefined\<close> is read.
\<close>

record browser =
  translationApi :: bool
  ai :: bool
  languageDetection :: bool
  summarizer :: bool
  translator :: bool
  displayNames :: "string \<Rightarrow> string option"
  toFixed :: "rat \<Rightarrow> string"
  typeErrorMessage :: string

text \<open>The calls made to the external services, in the order they are issued.\<close>

datatype call =
    CreateDetector
  | Detect string
  | CreateTranslator string string
  | TranslatorTranslate string
  | LanguageDetectionDetect string
  | SummarizerSummarize string
  | AiTranslatorTranslate string string "string option"


section \<open>ChatTranslator (src/app/page.js)\<close>

subsection \<open>State\<close>

datatype confidence = Number rat | Fixed string

record message =
  id_m :: nat
  text_m :: string
  detectedLang :: string
  confidence :: confidence
  translations_m :: "string \<rightharpoonup> string"
  showTranslation :: bool
  loading :: "bool option"
  error :: "string option"

record detection =
  detectedLanguage :: string
  confidence_d :: rat

text \<open>
  The four \<open>useState\<close> cells of the component, and the effects of the handlers that
  are not state: the \<open>alert\<close> boxes shown, the lines written with \<open>console.error\<close>,
  and the service calls issued.
\<close>

record ChatTranslator =
  inputText :: string
  messages :: "message list"
  targetLanguage :: string
  isSupported :: bool
  alerts :: "string list"
  console :: "string list"
  calls :: "call list"

subsection \<open>handleDeleteMessage, handleClearTranslation\<close>

definition handleDeleteMessage :: "nat \<Rightarrow> ChatTranslator \<Rightarrow> ChatTranslator" where
  "handleDeleteMessage messageId st =
     st\<lparr>messages := filter (\<lambda>msg. id_m msg \<noteq> messageId) (messages st)\<rparr>"

definition handleClearTranslation :: "nat \<Rightarrow> ChatTranslator \<Rightarrow> ChatTranslator" where
  "handleClearTranslation messageId st =
     st\<lparr>messages :=
          map (\<lambda>msg. if id_m msg = messageId
                      then msg\<lparr>translations_m := Map.empty, showTranslation := False\<rparr>
                      else msg)
              (messages st)\<rparr>"

subsection \<open>handleSubmit\<close>

text \<open>
  A suspended call of \<open>handleSubmit\<close>: waiting for \<open>createDetector()\<close> (it holds
  \<open>newMessage\<close> and the \<open>inputText\<close> of its closure), or waiting for
  \<open>detector.detect(...)\<close>.
\<close>

datatype submitTask =
    SubmitDetector message string
  | SubmitDetect message

definition catchSubmit :: "ChatTranslator \<Rightarrow> ChatTranslator" where
  "catchSubmit st = st\<lparr>console := console st @ [''Detection error:'']\<rparr>"

text \<open>
  \<open>now\<close> is the value of \<open>Date.now()\<close>. With \<open>self.translation\<close> missing,
  \<open>self.translation.createDetector()\<close> throws inside the \<open>try\<close> block.
\<close>

definition handleSubmit ::
  "browser \<Rightarrow> nat \<Rightarrow> ChatTranslator \<Rightarrow> ChatTranslator \<times> submitTask option" where
  "handleSubmit env now st =
     (if trim (inputText st) = [] then (st, None)
      else
        let newMessage = \<lparr>id_m = now, text_m = inputText st, detectedLang = [],
                            confidence = Number 0, translations_m = Map.empty,
                            showTranslation = False, loading = None, error = None\<rparr>
        in if translationApi env
           then (st\<lparr>calls := calls st @ [CreateDetector]\<rparr>,
                 Some (SubmitDetector newMessage (inputText st)))
           else (catchSubmit st, None))"

definition handleSubmit_detector ::
  "message \<Rightarrow> string \<Rightarrow> unit settled \<Rightarrow> ChatTranslator
     \<Rightarrow> ChatTranslator \<times> submitTask option" where
  "handleSubmit_detector newMessage inputText0 r st =
     (case r of
        Rejected _ \<Rightarrow> (catchSubmit st, None)
      | Resolved _ \<Rightarrow>
          (st\<lparr>calls := calls st @ [Detect (trim inputText0)]\<rparr>,
           Some (SubmitDetect newMessage)))"

text \<open>
  Destructuring \<open>detectionResult[0]\<close> throws when the result is empty, and
  \<open>languageTagToHumanReadable\<close> throws when \<open>Intl.DisplayNames\<close> rejects the tag;
  both end in the \<open>catch\<close> block.
\<close>

definition handleSubmit_detect ::
  "browser \<Rightarrow> message \<Rightarrow> detection list settled \<Rightarrow> ChatTranslator
     \<Rightarrow> ChatTranslator \<times> submitTask option" where
  "handleSubmit_detect env newMessage r st =
     (case r of
        Rejected _ \<Rightarrow> (catchSubmit st, None)
      | Resolved detectionResult \<Rightarrow>
          (case detectionResult of
             [] \<Rightarrow> (catchSubmit st, None)
           | d # _ \<Rightarrow>
               (case displayNames env (detectedLanguage d) of
                  None \<Rightarrow> (catchSubmit st, None)
                | Some name \<Rightarrow>
                    (st\<lparr>messages :=
                          newMessage\<lparr>detectedLang := name,
                                       confidence := Fixed (toFixed env (confidence_d d * 100))\<rparr>
                          # messages st,
                        inputText := []\<rparr>,
                     None))))"

subsection \<open>handleTranslate\<close>

text \<open>
  A suspended call of \<open>handleTranslate\<close> holds \<open>messageId\<close>, the \<open>message\<close> found
  in the \<open>messages\<close> of its closure (\<open>undefined\<close> when there is none) and the
  \<open>targetLanguage\<close> of its closure. It waits for \<open>createDetector()\<close>,
  \<open>detector.detect(...)\<close>, \<open>createTranslator(...)\<close> or \<open>translator.translate(...)\<close>.
\<close>

datatype translateTask =
    TranslateDetector nat "message option" string
  | TranslateDetect nat message string
  | TranslateTranslator nat message string
  | TranslateTranslation nat message string

definition catchTranslate :: "nat \<Rightarrow> ChatTranslator \<Rightarrow> ChatTranslator" where
  "catchTranslate messageId st =
     st\<lparr>console := console st @ [''Translation error:''],
        messages :=
          map (\<lambda>msg. if id_m msg = messageId
                      then msg\<lparr>loading := Some False,
                               error := Some ''Translation failed. Please try another language pair.''\<rparr>
                      else msg)
              (messages st)\<rparr>"

definition handleTranslate ::
  "browser \<Rightarrow> nat \<Rightarrow> ChatTranslator \<Rightarrow> ChatTranslator \<times> translateTask option" where
  "handleTranslate env messageId st =
     (let st1 = st\<lparr>messages :=
                     map (\<lambda>msg. if id_m msg = messageId then msg\<lparr>loading := Some True\<rparr> else msg)
                         (messages st)\<rparr>;
          message = find (\<lambda>msg. id_m msg = messageId) (messages st)
      in if translationApi env
         then (st1\<lparr>calls := calls st1 @ [CreateDetector]\<rparr>,
               Some (TranslateDetector messageId message (targetLanguage st)))
         else (catchTranslate messageId st1, None))"

text \<open>With \<open>message\<close> undefined, \<open>message.text\<close> throws before \<open>detect\<close> is called.\<close>

definition handleTranslate_detector ::
  "nat \<Rightarrow> message option \<Rightarrow> string \<Rightarrow> unit settled \<Rightarrow> ChatTranslator
     \<Rightarrow> ChatTranslator \<times> translateTask option" where
  "handleTranslate_detector messageId message targetLanguage0 r st =
     (case r of
        Rejected _ \<Rightarrow> (catchTranslate messageId st, None)
      | Resolved _ \<Rightarrow>
          (case message of
             None \<Rightarrow> (catchTranslate messageId st, None)
           | Some m \<Rightarrow>
               (st\<lparr>calls := calls st @ [Detect (trim (text_m m))]\<rparr>,
                Some (TranslateDetect messageId m targetLanguage0))))"

text \<open>The text of the alert starts with a warning sign, left out here.\<close>

definition handleTranslate_detect ::
  "nat \<Rightarrow> message \<Rightarrow> string \<Rightarrow> detection list settled \<Rightarrow> ChatTranslator
     \<Rightarrow> ChatTranslator \<times> translateTask option" where
  "handleTranslate_detect messageId message targetLanguage0 r st =
     (case r of
        Rejected _ \<Rightarrow> (catchTranslate messageId st, None)
      | Resolved detectionResult \<Rightarrow>
          (case detectionResult of
             [] \<Rightarrow> (catchTranslate messageId st, None)
           | d # _ \<Rightarrow>
               (let sourceLang = detectedLanguage d
                in if sourceLang = targetLanguage0
                   then (st\<lparr>alerts := alerts st @ [''Source and target languages are the same!''],
                            messages :=
                              map (\<lambda>msg. if id_m msg = messageId
                                          then msg\<lparr>loading := Some False\<rparr> else msg)
                                  (messages st)\<rparr>,
                         None)
                   else (st\<lparr>calls := calls st @ [CreateTranslator sourceLang targetLanguage0]\<rparr>,
                         Some (TranslateTranslator messageId message targetLanguage0)))))"

definition handleTranslate_translator ::
  "nat \<Rightarrow> message \<Rightarrow> string \<Rightarrow> unit settled \<Rightarrow> ChatTranslator
     \<Rightarrow> ChatTranslator \<times> translateTask option" where
  "handleTranslate_translator messageId message targetLanguage0 r st =
     (case r of
        Rejected _ \<Rightarrow> (catchTranslate messageId st, None)
      | Resolved _ \<Rightarrow>
          (st\<lparr>calls := calls st @ [TranslatorTranslate (trim (text_m message))]\<rparr>,
           Some (TranslateTranslation messageId message targetLanguage0)))"

definition handleTranslate_translation ::
  "nat \<Rightarrow> message \<Rightarrow> string \<Rightarrow> string settled \<Rightarrow> ChatTranslator
     \<Rightarrow> ChatTranslator \<times> translateTask option" where
  "handleTranslate_translation messageId message targetLanguage0 r st =
     (case r of
        Rejected _ \<Rightarrow> (catchTranslate messageId st, None)
      | Resolved translation \<Rightarrow>
          (st\<lparr>messages :=
                map (\<lambda>msg. if id_m msg = messageId
                            then msg\<lparr>translations_m := (translations_m msg)(targetLanguage0 \<mapsto> translation),
                                     showTranslation := True,
                                     loading := Some False\<rparr>
                            else msg)
                    (messages st)\<rparr>,
           None))"

subsection \<open>Running a suspended call\<close>

text \<open>
  What the four promises of one call of \<open>handleTranslate\<close>, and the two of one call of
  \<open>handleSubmit\<close>, settle to.
\<close>

record outcomes =
  detectorO :: "unit settled"
  detectionO :: "detection list settled"
  translatorO :: "unit settled"
  translationO :: "string settled"

fun taskId :: "translateTask \<Rightarrow> nat" where
  "taskId (TranslateDetector messageId _ _) = messageId"
| "taskId (TranslateDetect messageId _ _) = messageId"
| "taskId (TranslateTranslator messageId _ _) = messageId"
| "taskId (TranslateTranslation messageId _ _) = messageId"

fun resumeTranslate ::
  "outcomes \<Rightarrow> translateTask \<Rightarrow> ChatTranslator \<Rightarrow> ChatTranslator \<times> translateTask option" where
  "resumeTranslate os (TranslateDetector i m tgt) st = handleTranslate_detector i m tgt (detectorO os) st"
| "resumeTranslate os (TranslateDetect i m tgt) st = handleTranslate_detect i m tgt (detectionO os) st"
| "resumeTranslate os (TranslateTranslator i m tgt) st = handleTranslate_translator i m tgt (translatorO os) st"
| "resumeTranslate os (TranslateTranslation i m tgt) st = handleTranslate_translation i m tgt (translationO os) st"

text \<open>
  A call has at most four suspensions, so four resumptions with nothing in between run
  it to its end; the second component is the suspension left, which is none
  (\<open>runTranslate_ends\<close> below).
\<close>

definition andThen ::
  "ChatTranslator \<times> translateTask option \<Rightarrow> outcomes \<Rightarrow> ChatTranslator \<times> translateTask option" where
  "andThen r os = (case r of (st, None) \<Rightarrow> (st, None) | (st, Some t) \<Rightarrow> resumeTranslate os t st)"

definition runTranslate ::
  "outcomes \<Rightarrow> translateTask \<Rightarrow> ChatTranslator \<Rightarrow> ChatTranslator \<times> translateTask option" where
  "runTranslate os t st = andThen (andThen (andThen (resumeTranslate os t st) os) os) os"

fun resumeSubmit ::
  "browser \<Rightarrow> outcomes \<Rightarrow> submitTask \<Rightarrow> ChatTranslator \<Rightarrow> ChatTranslator \<times> submitTask option" where
  "resumeSubmit env os (SubmitDetector newMessage inputText0) st =
     handleSubmit_detector newMessage inputText0 (detectorO os) st"
| "resumeSubmit env os (SubmitDetect newMessage) st =
     handleSubmit_detect env newMessage (detectionO os) st"

definition runSubmit ::
  "browser \<Rightarrow> outcomes \<Rightarrow> submitTask \<Rightarrow> ChatTranslator \<Rightarrow> ChatTranslator \<times> submitTask option" where
  "runSubmit env os t st =
     (case resumeSubmit env os t st of
        (st', None) \<Rightarrow> (st', None)
      | (st', Some t') \<Rightarrow> resumeSubmit env os t' st')"

subsection \<open>The page\<close>

text \<open>
  The effect that runs once after the first render sets \<open>isSupported\<close> to false when
  \<open>translation\<close> is not in \<open>self\<close> or \<open>createDetector\<close> is not in
  \<open>self.translation\<close>. With \<open>isSupported\<close> false the component returns one
  paragraph, the notice below, and nothing else: no form, no message, no button.
  (\<open>translationApi\<close> is the one flag of the model for \<open>self.translation\<close> and
  its methods.)
\<close>

definition mount :: "browser \<Rightarrow> ChatTranslator \<Rightarrow> ChatTranslator" where
  "mount env st = (if \<not> translationApi env then st\<lparr>isSupported := False\<rparr> else st)"

definition notice :: "ChatTranslator \<Rightarrow> string option" where
  "notice st =
     (if \<not> isSupported st then Some ''Translation API is not supported on this browser.''
      else None)"

text \<open>
  The \<open>onSubmit\<close> of the form is \<open>handleSubmit\<close>; there is a form only when
  \<open>isSupported\<close> is true.
\<close>

definition submitForm ::
  "browser \<Rightarrow> nat \<Rightarrow> ChatTranslator \<Rightarrow> ChatTranslator \<times> submitTask option" where
  "submitForm env now st = (if isSupported st then handleSubmit env now st else (st, None))"

text \<open>
  The page renders, for each element of \<open>messages\<close>, a Translate button with
  \<open>disabled={message.loading}\<close> whose \<open>onClick\<close> calls \<open>handleTranslate(message.id)\<close>;
  nothing but the unsupported notice is rendered when \<open>isSupported\<close> is false. A click
  on a disabled button calls no handler. \<open>i\<close> is the position of the message in the list.
\<close>

definition clickTranslate ::
  "browser \<Rightarrow> nat \<Rightarrow> ChatTranslator \<Rightarrow> ChatTranslator \<times> translateTask option" where
  "clickTranslate env i st =
     (if isSupported st \<and> i < length (messages st) \<and> loading (messages st ! i) \<noteq> Some True
      then handleTranslate env (id_m (messages st ! i)) st
      else (st, None))"

section \<open>Home (src/unnamed/part_000)\<close>

subsection \<open>State\<close>

text \<open>
  A message of \<open>Home\<close> has \<open>id\<close> and \<open>text\<close>; \<open>detectedLang\<close>, \<open>summary\<close>,
  \<open>translation\<close> and \<open>targetLang\<close> are assigned later and are \<open>undefined\<close> before.
\<close>

record message_H =
  id_H :: string
  text_H :: string
  detectedLang_H :: "string option"
  summary_H :: "string option"
  translation_H :: "string option"
  targetLang_H :: "string option"

record detection_H =
  language :: string

text \<open>
  \<open>handleSummarize\<close> and \<open>handleTranslate\<close> assign to fields of message objects that
  the arrays of old and new states share, so the objects live in a heap and
  \<open>messages\<close> is a list of addresses. An address is an index of \<open>heap\<close>.
\<close>

record Home =
  inputText_H :: string
  messages_H :: "nat list"
  heap :: "message_H list"
  targetLang :: string
  loading_H :: bool
  error_H :: string
  isClient :: bool
  console_H :: "string list"
  calls_H :: "call list"

definition deref :: "Home \<Rightarrow> nat \<Rightarrow> message_H option" where
  "deref st a = (if a < length (heap st) then Some (heap st ! a) else None)"

text \<open>\<open>Array.prototype.findIndex\<close>; \<open>None\<close> stands for -1.\<close>

fun findIndex :: "('a \<Rightarrow> bool) \<Rightarrow> 'a list \<Rightarrow> nat option" where
  "findIndex P [] = None"
| "findIndex P (x # xs) = (if P x then Some 0 else map_option Suc (findIndex P xs))"

text \<open>\<open>Number.prototype.toString\<close> of a natural number.\<close>

fun toString :: "nat \<Rightarrow> string" where
  "toString n =
     (if n < 10 then [''0123456789'' ! n]
      else toString (n div 10) @ [''0123456789'' ! (n mod 10)])"

declare toString.simps [simp del]

text \<open>\<open>err?.message || fallback\<close>.\<close>

definition errorText :: "string option \<Rightarrow> string \<Rightarrow> string" where
  "errorText e fallback =
     (case e of None \<Rightarrow> fallback | Some m \<Rightarrow> if m = [] then fallback else m)"

subsection \<open>handleSend\<close>

datatype sendTask = SendDetect message_H

text \<open>
  \<open>newMessage\<close> is local to the call until it is appended to \<open>messages\<close>; it enters
  the heap at that moment. The \<open>finally\<close> block sets \<open>loading\<close> to false on every
  path that went through \<open>try\<close>.
\<close>

definition handleSend :: "browser \<Rightarrow> nat \<Rightarrow> Home \<Rightarrow> Home \<times> sendTask option" where
  "handleSend env now st =
     (if trim (inputText_H st) = [] then (st\<lparr>error_H := ''Please enter some text''\<rparr>, None)
      else
        let newMessage = \<lparr>id_H = toString now, text_H = inputText_H st, detectedLang_H = None,
                            summary_H = None, translation_H = None, targetLang_H = None\<rparr>;
            st1 = st\<lparr>loading_H := True, error_H := []\<rparr>
        in if \<not> ai env \<or> \<not> languageDetection env
           then (st1\<lparr>error_H := ''Language detection service is unavailable.'',
                     loading_H := False\<rparr>, None)
           else (st1\<lparr>calls_H := calls_H st1 @ [LanguageDetectionDetect (inputText_H st)]\<rparr>,
                 Some (SendDetect newMessage)))"

definition handleSend_detect ::
  "message_H \<Rightarrow> detection_H list settled \<Rightarrow> Home \<Rightarrow> Home \<times> sendTask option" where
  "handleSend_detect newMessage r st =
     (case r of
        Rejected e \<Rightarrow>
          (st\<lparr>error_H := errorText e ''Failed to detect language'',
              console_H := console_H st @ [''Detection error:''],
              loading_H := False\<rparr>, None)
      | Resolved detectedLang0 \<Rightarrow>
          (st\<lparr>heap := heap st @
                  [newMessage\<lparr>detectedLang_H :=
                     (case detectedLang0 of [] \<Rightarrow> None | d # _ \<Rightarrow> Some (language d))\<rparr>],
              messages_H := messages_H st @ [length (heap st)],
              inputText_H := [],
              loading_H := False\<rparr>, None))"

subsection \<open>handleSummarize\<close>

text \<open>
  A suspended call holds the \<open>messages\<close> array of its closure and \<open>messageIndex\<close>.
  Reading \<open>window.ai.summarizer.summarize\<close> with the service missing, or
  \<open>message.text\<close> with \<open>message\<close> undefined, throws a TypeError.
\<close>

datatype summarizeTask = SummarizeSummary "nat list" nat

definition catchSummarize :: "string option \<Rightarrow> Home \<Rightarrow> Home" where
  "catchSummarize e st =
     st\<lparr>error_H := errorText e ''Failed to generate summary'', loading_H := False\<rparr>"

definition handleSummarize ::
  "browser \<Rightarrow> string \<Rightarrow> Home \<Rightarrow> Home \<times> summarizeTask option" where
  "handleSummarize env messageId st =
     (let st1 = st\<lparr>loading_H := True, error_H := []\<rparr>;
          messageIndex = findIndex (\<lambda>a. case deref st a of
                                           None \<Rightarrow> False
                                         | Some m \<Rightarrow> id_H m = messageId) (messages_H st)
      in case messageIndex of
           None \<Rightarrow> (catchSummarize (Some (typeErrorMessage env)) st1, None)
         | Some i \<Rightarrow>
             (case deref st (messages_H st ! i) of
                None \<Rightarrow> (catchSummarize (Some (typeErrorMessage env)) st1, None)
              | Some message \<Rightarrow>
                  if ai env \<and> summarizer env
                  then (st1\<lparr>calls_H := calls_H st1 @ [SummarizerSummarize (text_H message)]\<rparr>,
                        Some (SummarizeSummary (messages_H st) i))
                  else (catchSummarize (Some (typeErrorMessage env)) st1, None)))"

text \<open>
  \<open>updatedMessages\<close> is a copy of the array of the closure, with the same objects;
  the assignment changes the object, and \<open>setMessages\<close> puts the copy in place of
  the current array.
\<close>

definition handleSummarize_summary ::
  "browser \<Rightarrow> nat list \<Rightarrow> nat \<Rightarrow> string settled \<Rightarrow> Home
     \<Rightarrow> Home \<times> summarizeTask option" where
  "handleSummarize_summary env messages0 messageIndex r st =
     (case r of
        Rejected e \<Rightarrow> (catchSummarize e st, None)
      | Resolved summary \<Rightarrow>
          (case (if messageIndex < length messages0
                 then deref st (messages0 ! messageIndex) else None) of
             None \<Rightarrow> (catchSummarize (Some (typeErrorMessage env)) st, None)
           | Some m \<Rightarrow>
               (st\<lparr>heap := (heap st)[messages0 ! messageIndex := m\<lparr>summary_H := Some summary\<rparr>],
                   messages_H := messages0,
                   loading_H := False\<rparr>, None)))"

subsection \<open>handleTranslate of Home\<close>

datatype translateTask_H = TranslateTranslation_H "nat list" nat string

definition catchTranslate_H :: "string option \<Rightarrow> Home \<Rightarrow> Home" where
  "catchTranslate_H e st =
     st\<lparr>error_H := errorText e ''Translation failed. Language pair may not be supported.'',
        loading_H := False\<rparr>"

definition handleTranslate_H ::
  "browser \<Rightarrow> string \<Rightarrow> Home \<Rightarrow> Home \<times> translateTask_H option" where
  "handleTranslate_H env messageId st =
     (let st1 = st\<lparr>loading_H := True, error_H := []\<rparr>;
          messageIndex = findIndex (\<lambda>a. case deref st a of
                                           None \<Rightarrow> False
                                         | Some m \<Rightarrow> id_H m = messageId) (messages_H st)
      in case messageIndex of
           None \<Rightarrow> (catchTranslate_H (Some (typeErrorMessage env)) st1, None)
         | Some i \<Rightarrow>
             (case deref st (messages_H st ! i) of
                None \<Rightarrow> (catchTranslate_H (Some (typeErrorMessage env)) st1, None)
              | Some message \<Rightarrow>
                  if ai env \<and> translator env
                  then (st1\<lparr>calls_H := calls_H st1 @
                               [AiTranslatorTranslate (text_H message) (targetLang st)
                                  (detectedLang_H message)]\<rparr>,
                        Some (TranslateTranslation_H (messages_H st) i (targetLang st)))
                  else (catchTranslate_H (Some (typeErrorMessage env)) st1, None)))"

definition handleTranslate_H_translation ::
  "browser \<Rightarrow> nat list \<Rightarrow> nat \<Rightarrow> string \<Rightarrow> string settled \<Rightarrow> Home
     \<Rightarrow> Home \<times> translateTask_H option" where
  "handleTranslate_H_translation env messages0 messageIndex targetLang0 r st =
     (case r of
        Rejected e \<Rightarrow> (catchTranslate_H e st, None)
      | Resolved translation \<Rightarrow>
          (case (if messageIndex < length messages0
                 then deref st (messages0 ! messageIndex) else None) of
             None \<Rightarrow> (catchTranslate_H (Some (typeErrorMessage env)) st, None)
           | Some m \<Rightarrow>
               (st\<lparr>heap := (heap st)[messages0 ! messageIndex :=
                                        m\<lparr>translation_H := Some translation,
                                          targetLang_H := Some targetLang0\<rparr>],
                   messages_H := messages0,
                   loading_H := False\<rparr>, None)))"

subsection \<open>The buttons of Home\<close>

text \<open>
  The page renders nothing before \<open>isClient\<close> is set. For each element of
  \<open>messages\<close> it renders a Summarize button only under
  \<open>message.detectedLang === "en" && message.text.length > 150\<close>, and a Translate
  button; both have \<open>disabled={loading}\<close>. \<open>i\<close> is the position of the message.
\<close>

definition summarizeButton :: "message_H \<Rightarrow> bool" where
  "summarizeButton m \<longleftrightarrow> detectedLang_H m = Some ''en'' \<and> length (text_H m) > 150"

definition clickSummarize :: "browser \<Rightarrow> nat \<Rightarrow> Home \<Rightarrow> Home \<times> summarizeTask option" where
  "clickSummarize env i st =
     (case (if isClient st \<and> \<not> loading_H st \<and> i < length (messages_H st)
            then deref st (messages_H st ! i) else None) of
        None \<Rightarrow> (st, None)
      | Some m \<Rightarrow> if summarizeButton m then handleSummarize env (id_H m) st else (st, None))"

definition clickTranslate_H :: "browser \<Rightarrow> nat \<Rightarrow> Home \<Rightarrow> Home \<times> translateTask_H option" where
  "clickTranslate_H env i st =
     (case (if isClient st \<and> \<not> loading_H st \<and> i < length (messages_H st)
            then deref st (messages_H st ! i) else None) of
        None \<Rightarrow> (st, None)
      | Some m \<Rightarrow> handleTranslate_H env (id_H m) st)"

section \<open>Calls that run with nothing in between\<close>

text \<open>
  One whole call of a handler: the handler is invoked and each of its promises settles
  before anything else happens to the component.
\<close>

definition translate ::
  "browser \<Rightarrow> outcomes \<Rightarrow> nat \<Rightarrow> ChatTranslator \<Rightarrow> ChatTranslator \<times> translateTask option" where
  "translate env os messageId st =
     (case handleTranslate env messageId st of
        (st1, None) \<Rightarrow> (st1, None)
      | (st1, Some t) \<Rightarrow> runTranslate os t st1)"

definition submit ::
  "browser \<Rightarrow> outcomes \<Rightarrow> nat \<Rightarrow> ChatTranslator \<Rightarrow> ChatTranslator \<times> submitTask option" where
  "submit env os now st =
     (case handleSubmit env now st of
        (st1, None) \<Rightarrow> (st1, None)
      | (st1, Some t) \<Rightarrow> runSubmit env os t st1)"

text \<open>One whole submission of the form.\<close>

definition submitPage ::
  "browser \<Rightarrow> outcomes \<Rightarrow> nat \<Rightarrow> ChatTranslator \<Rightarrow> ChatTranslator \<times> submitTask option" where
  "submitPage env os now st =
     (case submitForm env now st of
        (st1, None) \<Rightarrow> (st1, None)
      | (st1, Some t) \<Rightarrow> runSubmit env os t st1)"

definition send :: "browser \<Rightarrow> detection_H list settled \<Rightarrow> nat \<Rightarrow> Home \<Rightarrow> Home" where
  "send env r now st =
     (case handleSend env now st of
        (st1, None) \<Rightarrow> st1
      | (st1, Some (SendDetect newMessage)) \<Rightarrow> fst (handleSend_detect newMessage r st1))"

definition summarize :: "browser \<Rightarrow> string settled \<Rightarrow> string \<Rightarrow> Home \<Rightarrow> Home" where
  "summarize env r messageId st =
     (case handleSummarize env messageId st of
        (st1, None) \<Rightarrow> st1
      | (st1, Some (SummarizeSummary messages0 messageIndex)) \<Rightarrow>
          fst (handleSummarize_summary env messages0 messageIndex r st1))"

definition translate_H :: "browser \<Rightarrow> string settled \<Rightarrow> string \<Rightarrow> Home \<Rightarrow> Home" where
  "translate_H env r messageId st =
     (case handleTranslate_H env messageId st of
        (st1, None) \<Rightarrow> st1
      | (st1, Some (TranslateTranslation_H messages0 messageIndex targetLang0)) \<Rightarrow>
          fst (handleTranslate_H_translation env messages0 messageIndex targetLang0 r st1))"

text \<open>The \<open>onChange\<close> of the language selector of \<open>Home\<close>.\<close>

definition setTargetLang :: "string \<Rightarrow> Home \<Rightarrow> Home" where
  "setTargetLang lang st = st\<lparr>targetLang := lang\<rparr>"

subsection \<open>Notions used in the proofs\<close>

text \<open>The number of promises a suspended \<open>handleTranslate\<close> has already awaited.\<close>

fun stage :: "translateTask \<Rightarrow> nat" where
  "stage (TranslateDetector _ _ _) = 0"
| "stage (TranslateDetect _ _ _) = 1"
| "stage (TranslateTranslator _ _ _) = 2"
| "stage (TranslateTranslation _ _ _) = 3"

text \<open>
  A resumption \<open>r\<close> of a call for message \<open>i\<close> from state \<open>st\<close> that changed no
  state cell and stays a call for \<open>i\<close>.
\<close>

definition passes :: "nat \<Rightarrow> ChatTranslator \<Rightarrow> ChatTranslator \<times> translateTask option \<Rightarrow> bool" where
  "passes i st r \<longleftrightarrow>
     messages (fst r) = messages st \<and> inputText (fst r) = inputText st \<and>
     targetLanguage (fst r) = targetLanguage st \<and> isSupported (fst r) = isSupported st \<and>
     (\<forall>u. snd r = Some u \<longrightarrow> taskId u = i)"

text \<open>The first update of \<open>handleTranslate\<close>.\<close>

definition markLoading :: "nat \<Rightarrow> message list \<Rightarrow> message list" where
  "markLoading i xs = map (\<lambda>msg. if id_m msg = i then msg\<lparr>loading := Some True\<rparr> else msg) xs"

subsection \<open>Concrete states\<close>

text \<open>
  A browser with every service, in which \<open>Intl.DisplayNames\<close> knows \<open>en\<close>; the
  promises of a call that succeeds (the text is detected as English) and of one whose
  detection, translator and translation are rejected.
\<close>

definition env0 :: browser where
  "env0 = \<lparr>translationApi = True, ai = True, languageDetection = True, summarizer = True,
            translator = True,
            displayNames = (\<lambda>tag. if tag = ''en'' then Some ''English'' else Some tag),
            toFixed = (\<lambda>c. ''95.0''), typeErrorMessage = ''TypeError''\<rparr>"

definition okay :: outcomes where
  "okay = \<lparr>detectorO = Resolved (),
           detectionO = Resolved [\<lparr>detectedLanguage = ''en'', confidence_d = 95 / 100\<rparr>],
           translatorO = Resolved (), translationO = Resolved ''Hallo Welt''\<rparr>"

definition failing :: outcomes where
  "failing = \<lparr>detectorO = Resolved (), detectionO = Rejected (Some ''DetectionFailed''),
           translatorO = Rejected (Some ''UnsupportedLanguagePair''),
           translationO = Rejected (Some ''TranslationFailed'')\<rparr>"

text \<open>
  States of \<open>ChatTranslator\<close> with one message, translated into Spanish and French:
  at rest, with a translation into German suspended, with English selected, with the
  error of a failed translation, and with a text typed in.
\<close>

definition hello :: message where
  "hello = \<lparr>id_m = 1, text_m = ''Hello world'', detectedLang = ''English'',
             confidence = Fixed ''95.0'',
             translations_m = [''es'' \<mapsto> ''Hola mundo'', ''fr'' \<mapsto> ''Bonjour le monde''],
             showTranslation = True, loading = None, error = None\<rparr>"

definition chat1 :: ChatTranslator where
  "chat1 = \<lparr>inputText = [], messages = [hello], targetLanguage = ''es'', isSupported = True,
             alerts = [], console = [], calls = []\<rparr>"


definition chatEn :: ChatTranslator where
  "chatEn = chat1\<lparr>targetLanguage := ''en''\<rparr>"

definition chatErr :: ChatTranslator where
  "chatErr = chat1\<lparr>messages :=
       [hello\<lparr>error := Some ''Translation failed. Please try another language pair.''\<rparr>],
     targetLanguage := ''de''\<rparr>"

definition chatIn :: ChatTranslator where
  "chatIn = chat1\<lparr>inputText := ''Bonjour''\<rparr>"

text \<open>
  A second message, a state with both messages and English selected, and
  \<open>handleTranslate(1)\<close> invoked there.
\<close>

definition adios :: message where
  "adios = \<lparr>id_m = 2, text_m = ''Adios'', detectedLang = ''Spanish'',
             confidence = Fixed ''90.0'', translations_m = [''en'' \<mapsto> ''Goodbye''],
             showTranslation = True, loading = None, error = None\<rparr>"

definition chat3 :: ChatTranslator where
  "chat3 = chat1\<lparr>messages := [hello, adios], targetLanguage := ''en''\<rparr>"

definition lateA :: "ChatTranslator \<times> translateTask option" where
  "lateA = handleTranslate env0 1 chat3"

text \<open>\<open>handleTranslate(1)\<close> invoked, and invoked again before any promise settles.\<close>

definition twiceA :: "ChatTranslator \<times> translateTask option" where
  "twiceA = handleTranslate env0 1 chat1"

definition twiceB :: "ChatTranslator \<times> translateTask option" where
  "twiceB = handleTranslate env0 1 (fst twiceA)"

text \<open>
  States of \<open>Home\<close> with one message: an English one, a French one of 500
  characters, an English one of 151 characters; with a text typed in; with English
  selected.
\<close>

definition world :: message_H where
  "world = \<lparr>id_H = ''1'', text_H = ''Hello world'', detectedLang_H = Some ''en'',
             summary_H = None, translation_H = None, targetLang_H = None\<rparr>"

definition home1 :: Home where
  "home1 = \<lparr>inputText_H = [], messages_H = [0], heap = [world], targetLang = ''es'',
             loading_H = False, error_H = [], isClient = True, console_H = [], calls_H = []\<rparr>"

definition french :: message_H where
  "french = \<lparr>id_H = ''7'', text_H = replicate 500 (CHR ''a''), detectedLang_H = Some ''fr'',
              summary_H = None, translation_H = None, targetLang_H = None\<rparr>"

definition homeFr :: Home where
  "homeFr = home1\<lparr>heap := [french]\<rparr>"

definition longEnglish :: message_H where
  "longEnglish = \<lparr>id_H = ''8'', text_H = replicate 151 (CHR ''a''), detectedLang_H = Some ''en'',
              summary_H = None, translation_H = None, targetLang_H = None\<rparr>"

definition homeEn :: Home where
  "homeEn = home1\<lparr>heap := [longEnglish]\<rparr>"

definition homeIn :: Home where
  "homeIn = home1\<lparr>inputText_H := ''Bonjour''\<rparr>"

definition homeSame :: Home where
  "homeSame = home1\<lparr>targetLang := ''en''\<rparr>"

text \<open>
  \<open>Home\<close> with a text typed in, after \<open>handleTranslate\<close> was invoked for its
  message and, before the translation arrived, a whole \<open>handleSend\<close> ran.
\<close>

definition homeLate :: Home where
  "homeLate = send env0 (Resolved [\<lparr>language = ''fr''\<rparr>]) 2 (fst (handleTranslate_H env0 ''1'' homeIn))"

section \<open>Lemmas\<close>


lemmas translate_steps =
  handleTranslate_detector_def handleTranslate_detect_def
  handleTranslate_translator_def handleTranslate_translation_def

lemmas home_steps = translate_H_def handleTranslate_H_def handleTranslate_H_translation_def
  summarize_def handleSummarize_def handleSummarize_summary_def send_def handleSend_def
  handleSend_detect_def catchSummarize_def catchTranslate_H_def deref_def setTargetLang_def
  errorText_def Let_def

subsection \<open>Lists of messages\<close>

lemma map_absent:
  "messageId \<notin> id_m ` set xs \<Longrightarrow>
     map (\<lambda>msg. if id_m msg = messageId then f msg else msg) xs = xs"
  by (induction xs) auto

lemma all_map_if:
  assumes "\<And>x. P x \<Longrightarrow> Q (f x)" and "\<And>x. \<not> P x \<Longrightarrow> Q x"
  shows "\<forall>y \<in> set (map (\<lambda>x. if P x then f x else x) xs). Q y"
  using assms by (induction xs) simp_all

lemma map_map_if:
  assumes "\<And>x. h (f x) = h x"
  shows "map h (map (\<lambda>x. if P x then f x else x) xs) = map h xs"
  using assms by (induction xs) simp_all

lemma list_all2_map_if:
  assumes "\<And>x. R x x" and "\<And>x. P x \<Longrightarrow> R x (f x)"
  shows "list_all2 R xs (map (\<lambda>x. if P x then f x else x) xs)"
  using assms by (induction xs) simp_all

lemma list_all2_same: "(\<And>x. R x x) \<Longrightarrow> list_all2 R xs xs"
  by (induction xs) simp_all

lemma find_map_same:
  assumes "\<And>x. P (f x) = P x"
  shows "find P (map f xs) = map_option f (find P xs)"
  using assms by (induction xs) simp_all

lemma findIndex_Some: "findIndex P xs = Some j \<Longrightarrow> j < length xs \<and> P (xs ! j)"
proof (induction xs arbitrary: j)
  case Nil
  then show ?case by simp
next
  case (Cons x xs)
  then show ?case by (cases "P x") (auto split: if_splits)
qed

lemma markLoading_idem: "markLoading i (markLoading i xs) = markLoading i xs"
  unfolding markLoading_def by (induction xs) simp_all

lemma markLoading_nth:
  "j < length xs \<Longrightarrow> id_m (markLoading i xs ! j) = i \<Longrightarrow> loading (markLoading i xs ! j) = Some True"
  unfolding markLoading_def by (simp split: if_splits)

lemma markLoading_translations:
  "map translations_m (map (\<lambda>x. if P x then f x else x) (markLoading i xs)) = map translations_m xs"
  if "\<And>x. translations_m (f x) = translations_m x"
  unfolding markLoading_def using that by (induction xs) simp_all

lemma markLoading_loading:
  "map loading (map (\<lambda>x. if id_m x = i then f x else x) (markLoading i xs))
     = map (\<lambda>x. if id_m x = i then Some False else loading x) xs"
  if "\<And>x. loading (f x) = Some False"
  unfolding markLoading_def using that by (induction xs) simp_all

subsection \<open>Suspended calls of handleTranslate\<close>

lemma resume_stage:
  "resumeTranslate os t st = (st', Some u) \<Longrightarrow> stage u = Suc (stage t) \<and> taskId u = taskId t"
  by (cases t)
     (auto simp: translate_steps Let_def
        split: settled.splits option.splits list.splits if_splits)

lemma stage_le: "stage t \<le> 3"
  by (cases t) auto

lemma andThen_None [simp]: "andThen (st, None) os = (st, None)"
  by (simp add: andThen_def)

lemma andThen_Some [simp]: "andThen (st, Some t) os = resumeTranslate os t st"
  by (simp add: andThen_def)

lemma runTranslate_ends: "snd (runTranslate os t st) = None"
proof -
  obtain s1 r1 where 1: "resumeTranslate os t st = (s1, r1)" by (cases "resumeTranslate os t st")
  show ?thesis
  proof (cases r1)
    case None with 1 show ?thesis by (simp add: runTranslate_def)
  next
    case (Some t1)
    with 1 resume_stage have st1: "stage t1 = Suc (stage t)" by blast
    obtain s2 r2 where 2: "resumeTranslate os t1 s1 = (s2, r2)" by (cases "resumeTranslate os t1 s1")
    show ?thesis
    proof (cases r2)
      case None with 1 2 Some show ?thesis by (simp add: runTranslate_def)
    next
      case (Some t2)
      with 2 resume_stage have st2: "stage t2 = Suc (stage t1)" by blast
      obtain s3 r3 where 3: "resumeTranslate os t2 s2 = (s3, r3)" by (cases "resumeTranslate os t2 s2")
      show ?thesis
      proof (cases r3)
        case None with 1 2 3 \<open>r1 = Some t1\<close> \<open>r2 = Some t2\<close> show ?thesis by (simp add: runTranslate_def)
      next
        case (Some t3)
        with 3 resume_stage have st3: "stage t3 = Suc (stage t2)" by blast
        obtain s4 r4 where 4: "resumeTranslate os t3 s3 = (s4, r4)" by (cases "resumeTranslate os t3 s3")
        have "r4 = None"
        proof (cases r4)
          case (Some t4)
          with 4 resume_stage have "stage t4 = Suc (stage t3)" by blast
          with st1 st2 st3 stage_le [of t4] show ?thesis by simp
        qed simp
        with 1 2 3 4 \<open>r1 = Some t1\<close> \<open>r2 = Some t2\<close> Some show ?thesis by (simp add: runTranslate_def)
      qed
    qed
  qed
qed

lemma delete_absent: "messageId \<notin> id_m ` set (messages (handleDeleteMessage messageId st))"
  by (auto simp: handleDeleteMessage_def)

lemma resume_passes:
  "taskId t \<notin> id_m ` set (messages st) \<Longrightarrow> passes (taskId t) st (resumeTranslate os t st)"
  unfolding passes_def
  by (cases t)
     (auto simp: translate_steps catchTranslate_def map_absent Let_def
        split: settled.splits option.splits list.splits if_splits)

lemma andThen_passes:
  assumes "passes i st r" and "i \<notin> id_m ` set (messages st)"
  shows "passes i st (andThen r os)"
proof (cases r)
  case (Pair s o1)
  show ?thesis
  proof (cases o1)
    case None with Pair assms show ?thesis by simp
  next
    case (Some t)
    with Pair assms have i: "taskId t = i" and m: "messages s = messages st"
      and rest: "inputText s = inputText st" "targetLanguage s = targetLanguage st"
         "isSupported s = isSupported st"
      by (simp_all add: passes_def)
    from i m assms(2) have "passes (taskId t) s (resumeTranslate os t s)"
      by (intro resume_passes) simp
    with i m rest have "passes i st (resumeTranslate os t s)"
      by (simp add: passes_def)
    with Pair Some show ?thesis by simp
  qed
qed

lemma run_passes:
  assumes "taskId t \<notin> id_m ` set (messages st)"
  shows "passes (taskId t) st (runTranslate os t st)"
  unfolding runTranslate_def
  by (intro andThen_passes resume_passes assms)

lemma issue_pending:
  assumes "handleTranslate env i st = (st1, Some t)"
  shows "translationApi env \<and> messages st1 = markLoading i (messages st) \<and>
         targetLanguage st1 = targetLanguage st \<and> isSupported st1 = isSupported st"
  using assms by (auto simp: handleTranslate_def Let_def markLoading_def split: if_splits)

lemma resume_pending_messages:
  "resumeTranslate os t st = (st', Some u) \<Longrightarrow> messages st' = messages st"
  by (cases t)
     (auto simp: translate_steps Let_def
        split: settled.splits option.splits list.splits if_splits)

lemma resume_pending_state:
  "snd (resumeTranslate os t st) \<noteq> None \<Longrightarrow>
     messages (fst (resumeTranslate os t st)) = messages st \<and>
     isSupported (fst (resumeTranslate os t st)) = isSupported st"
  by (cases t)
     (auto simp: translate_steps Let_def
        split: settled.splits option.splits list.splits if_splits)

lemma andThen_pending_state:
  assumes "snd (andThen r os) \<noteq> None"
  shows "snd r \<noteq> None \<and> messages (fst (andThen r os)) = messages (fst r) \<and>
         isSupported (fst (andThen r os)) = isSupported (fst r)"
proof (cases r)
  case (Pair s o1)
  show ?thesis
  proof (cases o1)
    case None
    with Pair assms show ?thesis by simp
  next
    case (Some t)
    with Pair assms have "snd (resumeTranslate os t s) \<noteq> None" by simp
    from resume_pending_state [OF this] Pair Some show ?thesis by simp
  qed
qed

lemma loading_click:
  "j < length (messages s) \<Longrightarrow> loading (messages s ! j) = Some True \<Longrightarrow>
     clickTranslate env j s = (s, None)"
  by (simp add: clickTranslate_def)

lemma run_effects:
  "(alerts (fst (runTranslate os t st)) = alerts st \<or>
    alerts (fst (runTranslate os t st)) = alerts st @ [''Source and target languages are the same!'']) \<and>
   (\<exists>rest. calls (fst (runTranslate os t st)) = calls st @ rest) \<and>
   (console (fst (runTranslate os t st)) = console st \<or>
    console (fst (runTranslate os t st)) = console st @ [''Translation error:''])"
  by (cases t; cases "detectorO os"; cases "detectionO os"; cases "translatorO os";
      cases "translationO os")
     (auto simp: runTranslate_def translate_steps catchTranslate_def Let_def
        split: list.splits option.splits)

lemma passes_equality:
  assumes "passes i st r"
  shows "fst r = st\<lparr>alerts := alerts (fst r), console := console (fst r), calls := calls (fst r)\<rparr>"
  using assms by (intro ChatTranslator.equality) (simp_all add: passes_def)

subsection \<open>How a call of handleTranslate ends\<close>












lemma catch_rel:
  assumes "\<And>x. R x x"
    and "\<And>x. R x (x\<lparr>loading := Some False,
                       error := Some ''Translation failed. Please try another language pair.''\<rparr>)"
  shows "list_all2 R (messages st) (messages (catchTranslate i st))"
  unfolding catchTranslate_def using assms by (simp add: list_all2_map_if)

lemma resume_rel:
  assumes refl: "\<And>x. R x x"
    and fail: "\<And>x. R x (x\<lparr>loading := Some False,
                       error := Some ''Translation failed. Please try another language pair.''\<rparr>)"
    and same: "\<And>x. R x (x\<lparr>loading := Some False\<rparr>)"
    and succ: "\<And>x g tr. R x (x\<lparr>translations_m := (translations_m x)(g \<mapsto> tr),
                                 showTranslation := True, loading := Some False\<rparr>)"
  shows "list_all2 R (messages st) (messages (fst (resumeTranslate os t st)))"
proof (cases t)
  case (TranslateDetector i mo g)
  then show ?thesis
    using catch_rel [where R=R and i=i and st=st, OF refl fail] refl
    by (simp add: handleTranslate_detector_def list_all2_same split: settled.splits option.splits)
next
  case (TranslateDetect i m g)
  then show ?thesis
    using catch_rel [where R=R and i=i and st=st, OF refl fail] refl same
    by (simp add: handleTranslate_detect_def Let_def list_all2_same list_all2_map_if
          split: settled.splits list.splits)
next
  case (TranslateTranslator i m g)
  then show ?thesis
    using catch_rel [where R=R and i=i and st=st, OF refl fail] refl
    by (simp add: handleTranslate_translator_def list_all2_same split: settled.splits)
next
  case (TranslateTranslation i m g)
  then show ?thesis
    using catch_rel [where R=R and i=i and st=st, OF refl fail] refl succ
    by (simp add: handleTranslate_translation_def list_all2_map_if split: settled.splits)
qed

lemma issue_rel:
  assumes refl: "\<And>x. R x x"
    and fail: "\<And>x. R x (x\<lparr>loading := Some False,
                       error := Some ''Translation failed. Please try another language pair.''\<rparr>)"
    and load: "\<And>x. R x (x\<lparr>loading := Some True\<rparr>)"
  shows "list_all2 R (messages st) (messages (fst (handleTranslate env i st)))"
proof -
  have "list_all2 R xs (map (\<lambda>msg. if id_m msg = i
                      then msg\<lparr>loading := Some False,
                               error := Some ''Translation failed. Please try another language pair.''\<rparr>
                      else msg) (map (\<lambda>msg. if id_m msg = i then msg\<lparr>loading := Some True\<rparr> else msg) xs))"
    for xs
    using refl fail by (induction xs) simp_all
  then show ?thesis
    using refl load
    by (simp add: handleTranslate_def Let_def catchTranslate_def list_all2_map_if)
qed


lemma success_error:
  "map error (messages (fst (handleTranslate_translation i m g (Resolved tr) st))) = map error (messages st)"
  unfolding handleTranslate_translation_def by (simp add: map_map_if del: map_map)

subsection \<open>Whole calls of handleTranslate\<close>

lemma translate_same_language:
  assumes "translationApi env" and "find (\<lambda>msg. id_m msg = i) (messages st) = Some m"
    and "detectorO os = Resolved u" and "detectionO os = Resolved (d # ds)"
    and "detectedLanguage d = targetLanguage st"
  shows "translate env os i st =
           (st\<lparr>messages := map (\<lambda>msg. if id_m msg = i then msg\<lparr>loading := Some False\<rparr> else msg)
                              (markLoading i (messages st)),
               calls := calls st @ [CreateDetector, Detect (trim (text_m m))],
               alerts := alerts st @ [''Source and target languages are the same!'']\<rparr>, None)"
  using assms
  by (simp add: translate_def handleTranslate_def runTranslate_def translate_steps Let_def markLoading_def)

lemma translate_other_language:
  assumes "translationApi env" and "find (\<lambda>msg. id_m msg = i) (messages st) = Some m"
    and "detectorO os = Resolved u" and "detectionO os = Resolved (d # ds)"
    and "detectedLanguage d \<noteq> targetLanguage st"
    and "translatorO os = Resolved v" and "translationO os = Resolved tr"
  shows "translate env os i st =
           (st\<lparr>messages := map (\<lambda>msg. if id_m msg = i
                            then msg\<lparr>translations_m := (translations_m msg)(targetLanguage st \<mapsto> tr),
                                     showTranslation := True, loading := Some False\<rparr>
                            else msg)
                              (markLoading i (messages st)),
               calls := calls st @ [CreateDetector, Detect (trim (text_m m)),
                           CreateTranslator (detectedLanguage d) (targetLanguage st),
                           TranslatorTranslate (trim (text_m m))]\<rparr>, None)"
  using assms
  by (simp add: translate_def handleTranslate_def runTranslate_def translate_steps Let_def markLoading_def)

lemma translate_other_language_prefix:
  assumes "translationApi env" and "find (\<lambda>msg. id_m msg = i) (messages st) = Some m"
    and "detectorO os = Resolved u" and "detectionO os = Resolved (d # ds)"
    and "detectedLanguage d \<noteq> targetLanguage st"
  shows "alerts (fst (translate env os i st)) = alerts st \<and>
         (\<exists>rest. calls (fst (translate env os i st)) =
            calls st @ [CreateDetector, Detect (trim (text_m m)),
                        CreateTranslator (detectedLanguage d) (targetLanguage st)] @ rest)"
  using assms
  by (cases "translatorO os"; cases "translationO os")
     (simp_all add: translate_def handleTranslate_def runTranslate_def translate_steps Let_def
        catchTranslate_def)

lemma translate_ignores_detectedLang:
  "calls (fst (translate env os i (st\<lparr>messages := map (\<lambda>msg. msg\<lparr>detectedLang := f msg\<rparr>) (messages st)\<rparr>)))
     = calls (fst (translate env os i st)) \<and>
   alerts (fst (translate env os i (st\<lparr>messages := map (\<lambda>msg. msg\<lparr>detectedLang := f msg\<rparr>) (messages st)\<rparr>)))
     = alerts (fst (translate env os i st))"
proof -
  have f: "find (\<lambda>msg. id_m msg = i) (map (\<lambda>msg. msg\<lparr>detectedLang := f msg\<rparr>) (messages st))
             = map_option (\<lambda>msg. msg\<lparr>detectedLang := f msg\<rparr>) (find (\<lambda>msg. id_m msg = i) (messages st))"
    by (rule find_map_same) simp
  show ?thesis
    by (cases "find (\<lambda>msg. id_m msg = i) (messages st)"; cases "detectorO os"; cases "detectionO os";
        cases "translatorO os"; cases "translationO os")
       (simp_all add: f translate_def handleTranslate_def runTranslate_def translate_steps Let_def
          catchTranslate_def split: list.splits)
qed

subsection \<open>handleClearTranslation and handleSubmit\<close>

lemma clear_error:
  "map error (messages (handleClearTranslation i st)) = map error (messages st)"
  unfolding handleClearTranslation_def by (simp add: map_map_if del: map_map)

lemma clear_keeps:
  "map h (messages (handleClearTranslation i st)) = map h (messages st)"
  if "\<And>x. h (x\<lparr>translations_m := Map.empty, showTranslation := False\<rparr>) = h x"
  unfolding handleClearTranslation_def using that by (simp add: map_map_if del: map_map)

lemma submit_display_name:
  "displayNames env (detectedLanguage d) = Some name \<Longrightarrow>
   messages (fst (handleSubmit_detect env newMessage (Resolved (d # ds)) st))
     = newMessage\<lparr>detectedLang := name,
                  confidence := Fixed (toFixed env (confidence_d d * 100))\<rparr> # messages st"
  by (simp add: handleSubmit_detect_def)


lemma submit_cases:
  assumes "trim (inputText st) \<noteq> []"
  shows "snd (submit env os now st) = None \<and>
         ((\<exists>d ds name. translationApi env \<and> (\<exists>u. detectorO os = Resolved u) \<and>
              detectionO os = Resolved (d # ds) \<and>
              displayNames env (detectedLanguage d) = Some name \<and>
              messages (fst (submit env os now st))
                = \<lparr>id_m = now, text_m = inputText st, detectedLang = name,
                    confidence = Fixed (toFixed env (confidence_d d * 100)),
                    translations_m = Map.empty, showTranslation = False,
                    loading = None, error = None\<rparr> # messages st \<and>
              inputText (fst (submit env os now st)) = [] \<and>
              alerts (fst (submit env os now st)) = alerts st \<and>
              console (fst (submit env os now st)) = console st)
          \<or> (messages (fst (submit env os now st)) = messages st \<and>
              inputText (fst (submit env os now st)) = inputText st \<and>
              targetLanguage (fst (submit env os now st)) = targetLanguage st \<and>
              isSupported (fst (submit env os now st)) = isSupported st \<and>
              alerts (fst (submit env os now st)) = alerts st \<and>
              console (fst (submit env os now st)) = console st @ [''Detection error:'']))"
  using assms
  by (cases "detectorO os"; cases "detectionO os")
     (auto simp: submit_def runSubmit_def handleSubmit_def handleSubmit_detector_def
        handleSubmit_detect_def catchSubmit_def Let_def
        split: list.splits option.splits)

lemma submit_failure:
  assumes "trim (inputText st) \<noteq> []"
    and "\<not> translationApi env \<or> detectorO os = Rejected e \<or> detectionO os = Rejected e"
  shows "messages (fst (submit env os now st)) = messages st \<and>
         alerts (fst (submit env os now st)) = alerts st \<and>
         inputText (fst (submit env os now st)) = inputText st"
  using assms
  by (cases "detectorO os"; cases "detectionO os")
     (auto simp: submit_def runSubmit_def handleSubmit_def handleSubmit_detector_def
        handleSubmit_detect_def catchSubmit_def Let_def
        split: list.splits option.splits)

lemma submitPage_unsupported:
  "\<not> translationApi env \<Longrightarrow>
     notice (mount env st) = Some ''Translation API is not supported on this browser.'' \<and>
     submitPage env os now (mount env st) = (mount env st, None) \<and>
     messages (mount env st) = messages st \<and> inputText (mount env st) = inputText st"
  by (simp add: mount_def notice_def submitPage_def submitForm_def)

lemma submitPage_supported:
  "translationApi env \<Longrightarrow> isSupported st \<Longrightarrow>
     mount env st = st \<and> notice st = None \<and>
     submitPage env os now (mount env st) = submit env os now st"
  by (simp add: mount_def notice_def submitPage_def submitForm_def submit_def)

lemma submitPage_ends:
  "trim (inputText st) \<noteq> [] \<Longrightarrow> snd (submitPage env os now (mount env st)) = None"
  by (cases "detectorO os"; cases "detectionO os")
     (auto simp: mount_def submitPage_def submitForm_def runSubmit_def handleSubmit_def
        handleSubmit_detector_def handleSubmit_detect_def catchSubmit_def Let_def
        split: list.splits option.splits)

subsection \<open>The handlers of Home\<close>

lemma toString_2: "toString 2 = ''2''"
  by (subst toString.simps) simp

lemma errorText_nonempty: "fallback \<noteq> [] \<Longrightarrow> errorText e fallback \<noteq> []"
  by (simp add: errorText_def split: option.splits)

lemma send_cases:
  assumes "trim (inputText_H st) \<noteq> []"
  shows "(\<exists>ds. ai env \<and> languageDetection env \<and> r = Resolved ds \<and>
            messages_H (send env r now st) = messages_H st @ [length (heap st)] \<and>
            heap (send env r now st)
              = heap st @ [\<lparr>id_H = toString now, text_H = inputText_H st,
                            detectedLang_H = (case ds of [] \<Rightarrow> None | d # _ \<Rightarrow> Some (language d)),
                            summary_H = None, translation_H = None, targetLang_H = None\<rparr>] \<and>
            inputText_H (send env r now st) = [] \<and>
            error_H (send env r now st) = [])
         \<or> (messages_H (send env r now st) = messages_H st \<and>
            heap (send env r now st) = heap st \<and>
            inputText_H (send env r now st) = inputText_H st \<and>
            error_H (send env r now st) \<noteq> [])"
  using assms
  by (cases r) (auto simp: send_def handleSend_def handleSend_detect_def Let_def errorText_nonempty)

lemma send_failure:
  assumes "trim (inputText_H st) \<noteq> []"
    and "\<not> ai env \<or> \<not> languageDetection env \<or> r = Rejected e"
  shows "messages_H (send env r now st) = messages_H st \<and> heap (send env r now st) = heap st \<and>
         error_H (send env r now st) \<noteq> []"
  using assms
  by (cases r) (auto simp: send_def handleSend_def handleSend_detect_def Let_def errorText_nonempty)

lemma summarize_effect:
  assumes "ai env" and "summarizer env"
    and "findIndex (\<lambda>a. case deref st a of None \<Rightarrow> False | Some m \<Rightarrow> id_H m = messageId)
           (messages_H st) = Some j"
    and "deref st (messages_H st ! j) = Some m"
  shows "heap (summarize env (Resolved s) messageId st)
           = (heap st)[messages_H st ! j := m\<lparr>summary_H := Some s\<rparr>] \<and>
         messages_H (summarize env (Resolved s) messageId st) = messages_H st \<and>
         calls_H (summarize env (Resolved s) messageId st)
           = calls_H st @ [SummarizerSummarize (text_H m)] \<and>
         error_H (summarize env (Resolved s) messageId st) = [] \<and>
         loading_H (summarize env (Resolved s) messageId st) = False"
proof -
  from findIndex_Some [OF assms(3)] have j: "j < length (messages_H st)" by simp
  from assms j show ?thesis
    by (auto simp: summarize_def handleSummarize_def handleSummarize_summary_def Let_def deref_def
          split: if_splits)
qed

text \<open>
  The completions of \<open>handleSummarize\<close> and \<open>handleTranslate\<close> of \<open>Home\<close>
  write through the index and the array captured when the handler was invoked, and put
  that array in place of the current one.
\<close>

lemma completion_H_puts_captured_array:
  assumes "messageIndex < length messages0" and "deref st (messages0 ! messageIndex) = Some m"
  shows "messages_H (fst (handleTranslate_H_translation env messages0 messageIndex lang
                            (Resolved translation) st)) = messages0 \<and>
         messages_H (fst (handleSummarize_summary env messages0 messageIndex
                            (Resolved summary) st)) = messages0"
  using assms by (simp add: handleTranslate_H_translation_def handleSummarize_summary_def)

lemma issue_H_pending:
  "handleTranslate_H env mid st = (st1, Some t) \<Longrightarrow> loading_H st1"
  by (auto simp: handleTranslate_H_def Let_def catchTranslate_H_def
        split: option.splits if_splits)

section \<open>The claims\<close>

subsection \<open>Submit\<close>

text \<open>
  Claim C1, as amended. For a non-blank input, one whole Submit ends and either inserts
  exactly one new message or leaves the list of messages as it was, never both.
  In \<open>ChatTranslator\<close> a missing service is found at mount: the page then shows the
  persistent not-supported notice in place of the form, so nothing can be submitted and
  no message is inserted. With the service present, \<open>handleSubmit\<close> puts the new
  message first, with \<open>detectedLang\<close> the display name of the first detected tag,
  and empties the input; when a promise is rejected, the detection result is empty or
  the tag has no display name, it leaves the messages, the input and the alerts as they
  were, shows no notice and only writes a line on the console: nothing the user can see.
  \<open>Home\<close> (\<open>handleSend\<close>) appends the new message, with \<open>detectedLang\<close> the
  language of the first detection result, undefined when the result is empty; with the
  service missing or \<open>detect\<close> rejected it leaves the messages as they were and sets
  a non-empty error text.
\<close>

theorem submit_inserts_or_leaves:
  assumes "trim (inputText st) \<noteq> []" and "trim (inputText_H hst) \<noteq> []"
  shows "snd (submitPage env os now (mount env st)) = None \<and>
         (\<not> translationApi env \<longrightarrow>
            notice (mount env st) = Some ''Translation API is not supported on this browser.'' \<and>
            submitPage env os now (mount env st) = (mount env st, None) \<and>
            messages (mount env st) = messages st \<and> inputText (mount env st) = inputText st) \<and>
         (translationApi env \<and> isSupported st \<longrightarrow>
            mount env st = st \<and> notice st = None \<and>
            submitPage env os now (mount env st) = submit env os now st \<and>
            ((\<exists>d ds name. (\<exists>u. detectorO os = Resolved u) \<and>
                detectionO os = Resolved (d # ds) \<and>
                displayNames env (detectedLanguage d) = Some name \<and>
                messages (fst (submit env os now st))
                  = \<lparr>id_m = now, text_m = inputText st, detectedLang = name,
                      confidence = Fixed (toFixed env (confidence_d d * 100)),
                      translations_m = Map.empty, showTranslation = False,
                      loading = None, error = None\<rparr> # messages st \<and>
                inputText (fst (submit env os now st)) = [] \<and>
                alerts (fst (submit env os now st)) = alerts st \<and>
                console (fst (submit env os now st)) = console st)
             \<or> (messages (fst (submit env os now st)) = messages st \<and>
                inputText (fst (submit env os now st)) = inputText st \<and>
                targetLanguage (fst (submit env os now st)) = targetLanguage st \<and>
                isSupported (fst (submit env os now st)) = isSupported st \<and>
                alerts (fst (submit env os now st)) = alerts st \<and>
                console (fst (submit env os now st)) = console st @ [''Detection error:'']))) \<and>
         (translationApi env \<and> isSupported st \<and>
          (detectorO os = Rejected e \<or> detectionO os = Rejected e) \<longrightarrow>
            messages (fst (submit env os now st)) = messages st \<and>
            alerts (fst (submit env os now st)) = alerts st \<and>
            inputText (fst (submit env os now st)) = inputText st \<and>
            notice (fst (submit env os now st)) = None) \<and>
         ((\<exists>ds. ai env \<and> languageDetection env \<and> r = Resolved ds \<and>
            messages_H (send env r now hst) = messages_H hst @ [length (heap hst)] \<and>
            heap (send env r now hst)
              = heap hst @ [\<lparr>id_H = toString now, text_H = inputText_H hst,
                            detectedLang_H = (case ds of [] \<Rightarrow> None | d # _ \<Rightarrow> Some (language d)),
                            summary_H = None, translation_H = None, targetLang_H = None\<rparr>] \<and>
            inputText_H (send env r now hst) = [] \<and>
            error_H (send env r now hst) = [])
          \<or> (messages_H (send env r now hst) = messages_H hst \<and>
            heap (send env r now hst) = heap hst \<and>
            inputText_H (send env r now hst) = inputText_H hst \<and>
            error_H (send env r now hst) \<noteq> [])) \<and>
         (\<not> ai env \<or> \<not> languageDetection env \<or> r = Rejected e' \<longrightarrow>
            messages_H (send env r now hst) = messages_H hst \<and> heap (send env r now hst) = heap hst \<and>
            error_H (send env r now hst) \<noteq> [])"
proof -
  have 1: "snd (submitPage env os now (mount env st)) = None"
    by (rule submitPage_ends [OF assms(1)])
  have 2: "\<not> translationApi env \<longrightarrow>
            notice (mount env st) = Some ''Translation API is not supported on this browser.'' \<and>
            submitPage env os now (mount env st) = (mount env st, None) \<and>
            messages (mount env st) = messages st \<and> inputText (mount env st) = inputText st"
    using submitPage_unsupported [of env st os now] by blast
  have 3: "translationApi env \<and> isSupported st \<longrightarrow>
            mount env st = st \<and> notice st = None \<and>
            submitPage env os now (mount env st) = submit env os now st"
    using submitPage_supported [of env st os now] by blast
  have 4: "translationApi env \<and> isSupported st \<and>
          (detectorO os = Rejected e \<or> detectionO os = Rejected e) \<longrightarrow>
            messages (fst (submit env os now st)) = messages st \<and>
            alerts (fst (submit env os now st)) = alerts st \<and>
            inputText (fst (submit env os now st)) = inputText st \<and>
            notice (fst (submit env os now st)) = None"
  proof (intro impI)
    assume a: "translationApi env \<and> isSupported st \<and>
          (detectorO os = Rejected e \<or> detectionO os = Rejected e)"
    then have f: "messages (fst (submit env os now st)) = messages st \<and>
         alerts (fst (submit env os now st)) = alerts st \<and>
         inputText (fst (submit env os now st)) = inputText st"
      using submit_failure [OF assms(1), of env os e now] by blast
    from submit_cases [OF assms(1), of env os now] a
    have "isSupported (fst (submit env os now st))" by auto
    with f show "messages (fst (submit env os now st)) = messages st \<and>
            alerts (fst (submit env os now st)) = alerts st \<and>
            inputText (fst (submit env os now st)) = inputText st \<and>
            notice (fst (submit env os now st)) = None"
      by (simp add: notice_def)
  qed
  from 1 2 3 4 submit_cases [OF assms(1), of env os now]
    send_cases [OF assms(2), of env r now] send_failure [OF assms(2), of env r e' now]
  show ?thesis by blast
qed

theorem submit_inserts_or_leaves_witness:
  "trim (inputText chatIn) \<noteq> [] \<and> trim (inputText_H homeIn) \<noteq> [] \<and>
   notice (mount (env0\<lparr>translationApi := False\<rparr>) chatIn)
     = Some ''Translation API is not supported on this browser.'' \<and>
   messages (fst (submitPage (env0\<lparr>translationApi := False\<rparr>) okay 2
                    (mount (env0\<lparr>translationApi := False\<rparr>) chatIn))) = messages chatIn \<and>
   map detectedLang (messages (fst (submitPage env0 okay 2 (mount env0 chatIn))))
     = [''English'', ''English''] \<and>
   map id_m (messages (fst (submitPage env0 okay 2 (mount env0 chatIn)))) = [2, 1] \<and>
   messages (fst (submitPage env0 failing 2 (mount env0 chatIn))) = messages chatIn \<and>
   messages_H (send env0 (Resolved [\<lparr>language = ''fr''\<rparr>]) 2 homeIn) = [0, 1] \<and>
   map detectedLang_H (heap (send env0 (Resolved [\<lparr>language = ''fr''\<rparr>]) 2 homeIn)) = [Some ''en'', Some ''fr''] \<and>
   messages_H (send env0 (Rejected None) 2 homeIn) = [0] \<and>
   error_H (send env0 (Rejected None) 2 homeIn) = ''Failed to detect language''"
proof -
  have 1: "trim (inputText chatIn) \<noteq> []"
    by (simp add: chatIn_def chat1_def trim_def isWhiteSpace_def)
  have 2: "trim (inputText_H homeIn) \<noteq> []"
    by (simp add: homeIn_def home1_def trim_def isWhiteSpace_def)
  show ?thesis
    using 1 2
      submit_inserts_or_leaves [OF 1 2, where env = env0 and os = okay and now = 2
         and e = "Some ''DetectionFailed''" and r = "Resolved [\<lparr>language = ''fr''\<rparr>]" and e' = None]
      submit_inserts_or_leaves [OF 1 2, where env = env0 and os = failing and now = 2
         and e = "Some ''DetectionFailed''" and r = "Rejected None" and e' = None]
      submit_inserts_or_leaves [OF 1 2, where env = "env0\<lparr>translationApi := False\<rparr>"
         and os = okay and now = 2
         and e = "Some ''DetectionFailed''" and r = "Rejected None" and e' = None]
    by (simp add: submit_def handleSubmit_def runSubmit_def handleSubmit_detector_def
        handleSubmit_detect_def catchSubmit_def chatIn_def chat1_def hello_def okay_def failing_def
        env0_def trim_def isWhiteSpace_def home_steps homeIn_def home1_def world_def
        mount_def notice_def submitPage_def submitForm_def)
qed

text \<open>
  Claim C1 as stated fails twice. In \<open>ChatTranslator\<close>, with the service present, a
  non-blank input whose detection is rejected leaves the messages unchanged and shows
  nothing: no alert, no notice, no state cell changed, one line on the console. In
  \<open>Home\<close>, a non-blank input whose detection resolves to an empty list inserts a
  message whose \<open>detectedLang\<close> is undefined, and sets no error.
\<close>

theorem submit_without_error_or_language:
  "trim (inputText chatIn) \<noteq> [] \<and> translationApi env0 \<and>
   mount env0 chatIn = chatIn \<and>
   messages (fst (submitPage env0 failing 2 (mount env0 chatIn))) = messages chatIn \<and>
   inputText (fst (submitPage env0 failing 2 (mount env0 chatIn))) = inputText chatIn \<and>
   targetLanguage (fst (submitPage env0 failing 2 (mount env0 chatIn))) = targetLanguage chatIn \<and>
   isSupported (fst (submitPage env0 failing 2 (mount env0 chatIn))) = isSupported chatIn \<and>
   notice (fst (submitPage env0 failing 2 (mount env0 chatIn))) = None \<and>
   alerts (fst (submitPage env0 failing 2 (mount env0 chatIn))) = [] \<and>
   console (fst (submitPage env0 failing 2 (mount env0 chatIn))) = [''Detection error:''] \<and>
   trim (inputText_H homeIn) \<noteq> [] \<and>
   messages_H (send env0 (Resolved []) 2 homeIn) = [0, 1] \<and>
   deref (send env0 (Resolved []) 2 homeIn) 1
     = Some \<lparr>id_H = ''2'', text_H = ''Bonjour'', detectedLang_H = None,
             summary_H = None, translation_H = None, targetLang_H = None\<rparr> \<and>
   error_H (send env0 (Resolved []) 2 homeIn) = []"
  by (simp add: submit_def handleSubmit_def runSubmit_def handleSubmit_detector_def
        handleSubmit_detect_def catchSubmit_def chatIn_def chat1_def failing_def env0_def
        trim_def isWhiteSpace_def home_steps homeIn_def home1_def toString_2
        mount_def notice_def submitPage_def submitForm_def)

subsection \<open>Delete during a translation\<close>

text \<open>
  Claim C2, as amended. In \<open>ChatTranslator\<close>, \<open>handleDeleteMessage(id)\<close> while a
  call of \<open>handleTranslate(id)\<close> is suspended (at any of its four \<open>await\<close>s),
  followed by the rest of that call, whatever its promises settle to: the call ends, and
  the message list is the one the deletion left (no message \<open>id\<close>, every other message
  as it was, same length), because each write of the call is a
  \<open>setMessages(prev => prev.map(...))\<close> that looks for \<open>id\<close> in the list of that
  moment. The late run changes no state cell; it is not without effect: the remaining
  service calls are issued, and it may show the same-language alert or write the
  failure on the console (the state after it is the state after the deletion but for
  alerts, console and calls, which only grow). \<open>Home\<close> has no delete, and the
  completion of its \<open>handleTranslate\<close> writes through the index and the array
  captured at invocation and puts that array in place of the current list.
\<close>

theorem delete_then_late_translate:
  assumes "taskId t = messageId"
  shows "snd (runTranslate os t (handleDeleteMessage messageId st)) = None \<and>
         messages (fst (runTranslate os t (handleDeleteMessage messageId st)))
           = messages (handleDeleteMessage messageId st) \<and>
         messages (handleDeleteMessage messageId st)
           = filter (\<lambda>msg. id_m msg \<noteq> messageId) (messages st) \<and>
         messageId \<notin> id_m ` set (messages (fst (runTranslate os t (handleDeleteMessage messageId st)))) \<and>
         inputText (fst (runTranslate os t (handleDeleteMessage messageId st))) = inputText st \<and>
         targetLanguage (fst (runTranslate os t (handleDeleteMessage messageId st))) = targetLanguage st \<and>
         fst (runTranslate os t (handleDeleteMessage messageId st))
           = (handleDeleteMessage messageId st)
               \<lparr>alerts := alerts (fst (runTranslate os t (handleDeleteMessage messageId st))),
                console := console (fst (runTranslate os t (handleDeleteMessage messageId st))),
                calls := calls (fst (runTranslate os t (handleDeleteMessage messageId st)))\<rparr> \<and>
         (alerts (fst (runTranslate os t (handleDeleteMessage messageId st))) = alerts st \<or>
          alerts (fst (runTranslate os t (handleDeleteMessage messageId st)))
            = alerts st @ [''Source and target languages are the same!'']) \<and>
         (\<exists>rest. calls (fst (runTranslate os t (handleDeleteMessage messageId st))) = calls st @ rest) \<and>
         (console (fst (runTranslate os t (handleDeleteMessage messageId st))) = console st \<or>
          console (fst (runTranslate os t (handleDeleteMessage messageId st)))
            = console st @ [''Translation error:'']) \<and>
         (messageIndex < length messages0 \<and> deref hst (messages0 ! messageIndex) = Some m \<longrightarrow>
            messages_H (fst (handleTranslate_H_translation env messages0 messageIndex lang
                               (Resolved translation) hst)) = messages0)"
proof -
  let ?d = "handleDeleteMessage messageId st"
  let ?R = "runTranslate os t ?d"
  have a: "taskId t \<notin> id_m ` set (messages ?d)"
    using assms delete_absent by simp
  have p: "passes (taskId t) ?d ?R"
    by (rule run_passes [OF a])
  have d: "messages ?d = filter (\<lambda>msg. id_m msg \<noteq> messageId) (messages st)"
     "inputText ?d = inputText st" "targetLanguage ?d = targetLanguage st"
     "alerts ?d = alerts st" "calls ?d = calls st" "console ?d = console st"
    by (simp_all add: handleDeleteMessage_def)
  from p have m: "messages (fst ?R) = messages ?d"
    and i: "inputText (fst ?R) = inputText ?d"
    and l: "targetLanguage (fst ?R) = targetLanguage ?d"
    by (simp_all add: passes_def)
  from a assms m have n: "messageId \<notin> id_m ` set (messages (fst ?R))"
    by simp
  have e: "fst ?R = ?d\<lparr>alerts := alerts (fst ?R), console := console (fst ?R), calls := calls (fst ?R)\<rparr>"
    by (rule passes_equality [OF p])
  have f: "(alerts (fst ?R) = alerts st \<or>
          alerts (fst ?R) = alerts st @ [''Source and target languages are the same!'']) \<and>
         (\<exists>rest. calls (fst ?R) = calls st @ rest) \<and>
         (console (fst ?R) = console st \<or> console (fst ?R) = console st @ [''Translation error:''])"
    using run_effects [of os t ?d] by (simp only: d(4,5,6))
  have h: "messageIndex < length messages0 \<and> deref hst (messages0 ! messageIndex) = Some m \<longrightarrow>
            messages_H (fst (handleTranslate_H_translation env messages0 messageIndex lang
                               (Resolved translation) hst)) = messages0"
    by (simp add: handleTranslate_H_translation_def)
  have 1: "snd ?R = None" by (rule runTranslate_ends)
  have 2: "messages (fst ?R) = messages ?d" by (rule m)
  have 5: "inputText (fst ?R) = inputText st" using i d(2) by simp
  have 6: "targetLanguage (fst ?R) = targetLanguage st" using l d(3) by simp
  from 1 2 d(1) n 5 6 e f h show ?thesis by (intro conjI) blast+
qed

theorem delete_then_late_translate_witness:
  "taskId (TranslateTranslation 1 hello ''de'') = 1 \<and>
   messages (handleDeleteMessage 1 (chat3\<lparr>messages := [hello\<lparr>loading := Some True\<rparr>, adios]\<rparr>)) = [adios] \<and>
   messages (fst (runTranslate okay (TranslateTranslation 1 hello ''de'')
      (handleDeleteMessage 1 (chat3\<lparr>messages := [hello\<lparr>loading := Some True\<rparr>, adios]\<rparr>)))) = [adios] \<and>
   deref homeLate 0 = Some world \<and> messages_H homeLate = [0, 1] \<and>
   messages_H (fst (handleTranslate_H_translation env0 [0] 0 ''es'' (Resolved ''Hola mundo'') homeLate))
     = [0]"
proof -
  have h: "taskId (TranslateTranslation 1 hello ''de'') = 1" by simp
  have k: "deref homeLate 0 = Some world" "messages_H homeLate = [0, 1]"
    by (simp_all add: homeLate_def home_steps homeIn_def home1_def world_def env0_def
          trim_def isWhiteSpace_def)
  show ?thesis
    using h k delete_then_late_translate [OF h, where os = okay
        and st = "chat3\<lparr>messages := [hello\<lparr>loading := Some True\<rparr>, adios]\<rparr>"
        and messageIndex = 0 and ?messages0.0 = "[0]" and hst = homeLate and m = world
        and env = env0 and lang = "''es''" and translation = "''Hola mundo''"]
    by (simp add: chat3_def chat1_def hello_def adios_def handleDeleteMessage_def)
qed

text \<open>
  Claim C2 as stated fails. In \<open>ChatTranslator\<close> the late completion is no
  no-op: with message 1 deleted while its call waits for \<open>createDetector()\<close>, the
  rest of the call still calls \<open>detect\<close> and shows the same-language alert for the
  message that is gone. In \<open>Home\<close>, whose \<open>handleTranslate\<close> the claim cites, the
  completion writes through the captured array: a message sent while the translation
  was awaited is in the list before the completion and is gone after it.
\<close>

theorem late_translate_alerts_and_calls:
  "snd lateA = Some (TranslateDetector 1 (Some hello) ''en'') \<and>
   map id_m (messages (handleDeleteMessage 1 (fst lateA))) = [2] \<and>
   alerts (handleDeleteMessage 1 (fst lateA)) = [] \<and>
   calls (handleDeleteMessage 1 (fst lateA)) = [CreateDetector] \<and>
   alerts (fst (runTranslate okay (TranslateDetector 1 (Some hello) ''en'')
                  (handleDeleteMessage 1 (fst lateA))))
     = [''Source and target languages are the same!''] \<and>
   calls (fst (runTranslate okay (TranslateDetector 1 (Some hello) ''en'')
                  (handleDeleteMessage 1 (fst lateA))))
     = [CreateDetector, Detect ''Hello world''] \<and>
   snd (handleTranslate_H env0 ''1'' homeIn) = Some (TranslateTranslation_H [0] 0 ''es'') \<and>
   messages_H homeLate = [0, 1] \<and>
   messages_H (fst (handleTranslate_H_translation env0 [0] 0 ''es'' (Resolved ''Hola mundo'') homeLate))
     = [0]"
  by (simp add: lateA_def handleTranslate_def handleDeleteMessage_def runTranslate_def
        translate_steps Let_def chat3_def chat1_def hello_def adios_def okay_def env0_def
        trim_def isWhiteSpace_def homeLate_def home_steps homeIn_def home1_def world_def)

subsection \<open>A second Translate for the same message\<close>

text \<open>
  Claim C3, as amended. \<open>handleTranslate\<close> has no guard of its own: invoked again
  while a call for the same message is suspended, it issues \<open>createDetector()\<close>
  again. What keeps a second request away is the page: once a call is suspended, the
  Translate button of every message with that id is disabled (\<open>message.loading\<close> is
  true), so a click on it calls nothing and changes nothing. That holds at every wait of
  the call: no resumption that leaves a call suspended changes the messages, and after
  one, two or three resumptions (the waits for \<open>detect\<close>, \<open>createTranslator\<close> and
  \<open>translate\<close>) the click is still without effect. In \<open>Home\<close> the buttons of all
  messages are disabled while any call is suspended.
\<close>

theorem translate_button_disabled_in_flight:
  assumes "handleTranslate env messageId st = (st1, Some t)"
  shows "(\<forall>j < length (messages st1). id_m (messages st1 ! j) = messageId \<longrightarrow>
            clickTranslate env j st1 = (st1, None)) \<and>
         handleTranslate env messageId st1 =
           (st1\<lparr>calls := calls st1 @ [CreateDetector]\<rparr>,
            Some (TranslateDetector messageId (find (\<lambda>msg. id_m msg = messageId) (messages st1))
                    (targetLanguage st1))) \<and>
         (\<forall>os t' st' u st2. resumeTranslate os t' st' = (st2, Some u) \<longrightarrow> messages st2 = messages st') \<and>
         (\<forall>os1 os2 os3 r j.
            (r = resumeTranslate os1 t st1 \<or>
             r = andThen (resumeTranslate os1 t st1) os2 \<or>
             r = andThen (andThen (resumeTranslate os1 t st1) os2) os3) \<and>
            snd r \<noteq> None \<and> j < length (messages (fst r)) \<and>
            id_m (messages (fst r) ! j) = messageId
              \<longrightarrow> clickTranslate env j (fst r) = (fst r, None)) \<and>
         (\<forall>mid hst hst1 ht j. handleTranslate_H env mid hst = (hst1, Some ht) \<longrightarrow>
            loading_H hst1 \<and> clickTranslate_H env j hst1 = (hst1, None))"
proof -
  from issue_pending [OF assms] have api: "translationApi env"
    and m: "messages st1 = markLoading messageId (messages st)" by simp_all
  have ld: "loading (messages st1 ! j) = Some True"
    if "j < length (messages st1)" and "id_m (messages st1 ! j) = messageId" for j
  proof -
    from that m have "j < length (messages st)" by (simp add: markLoading_def)
    with that m show ?thesis
      using markLoading_nth [of j "messages st" messageId] by simp
  qed
  have 1: "\<forall>j < length (messages st1). id_m (messages st1 ! j) = messageId \<longrightarrow>
            clickTranslate env j st1 = (st1, None)"
    using ld loading_click by blast
  have "map (\<lambda>msg. if id_m msg = messageId then msg\<lparr>loading := Some True\<rparr> else msg) (messages st1)
          = messages st1"
    using markLoading_idem [of messageId "messages st"] m by (simp add: markLoading_def)
  with api have 2: "handleTranslate env messageId st1 =
           (st1\<lparr>calls := calls st1 @ [CreateDetector]\<rparr>,
            Some (TranslateDetector messageId (find (\<lambda>msg. id_m msg = messageId) (messages st1))
                    (targetLanguage st1)))"
    by (simp add: handleTranslate_def Let_def)
  have 3: "\<forall>os t' st' u st2. resumeTranslate os t' st' = (st2, Some u) \<longrightarrow> messages st2 = messages st'"
    using resume_pending_messages by blast
  have 4: "\<forall>mid hst hst1 ht j. handleTranslate_H env mid hst = (hst1, Some ht) \<longrightarrow>
            loading_H hst1 \<and> clickTranslate_H env j hst1 = (hst1, None)"
    using issue_H_pending by (fastforce simp: clickTranslate_H_def)
  have 5: "clickTranslate env j (fst r) = (fst r, None)"
    if r: "r = resumeTranslate os1 t st1 \<or>
             r = andThen (resumeTranslate os1 t st1) os2 \<or>
             r = andThen (andThen (resumeTranslate os1 t st1) os2) os3"
      and s: "snd r \<noteq> None" and j: "j < length (messages (fst r))"
      and i: "id_m (messages (fst r) ! j) = messageId" for os1 os2 os3 r j
  proof -
    let ?r1 = "resumeTranslate os1 t st1"
    let ?r2 = "andThen ?r1 os2"
    let ?r3 = "andThen ?r2 os3"
    have e: "messages (fst r) = messages st1"
    proof -
      consider "r = ?r1" | "r = ?r2" | "r = ?r3" using r by blast
      then show ?thesis
      proof cases
        case 1
        with s resume_pending_state [of os1 t st1] show ?thesis by simp
      next
        case 2
        with s andThen_pending_state [of ?r1 os2]
        have "snd ?r1 \<noteq> None" and "messages (fst r) = messages (fst ?r1)" by simp_all
        with resume_pending_state [of os1 t st1] show ?thesis by simp
      next
        case 3
        with s andThen_pending_state [of ?r2 os3]
        have a: "snd ?r2 \<noteq> None" and b: "messages (fst r) = messages (fst ?r2)" by simp_all
        from a andThen_pending_state [of ?r1 os2]
        have c: "snd ?r1 \<noteq> None" and d: "messages (fst ?r2) = messages (fst ?r1)" by simp_all
        from c resume_pending_state [of os1 t st1] b d show ?thesis by simp
      qed
    qed
    from e j i ld [of j] have "loading (messages (fst r) ! j) = Some True" by simp
    with j show ?thesis by (simp add: loading_click)
  qed
  from 1 2 3 4 5 show ?thesis by blast
qed

theorem translate_button_disabled_in_flight_witness:
  "handleTranslate env0 1 chat1 = (fst twiceA, Some (TranslateDetector 1 (Some hello) ''es'')) \<and>
   id_m (messages (fst twiceA) ! 0) = 1 \<and>
   clickTranslate env0 0 (fst twiceA) = (fst twiceA, None) \<and>
   calls (fst (handleTranslate env0 1 (fst twiceA))) = [CreateDetector, CreateDetector] \<and>
   messages (fst (resumeTranslate okay (TranslateDetector 1 (Some hello) ''es'') (fst twiceA)))
     = messages (fst twiceA) \<and>
   snd (andThen (andThen (resumeTranslate okay (TranslateDetector 1 (Some hello) ''es'') (fst twiceA))
                   okay) okay)
     = Some (TranslateTranslation 1 hello ''es'') \<and>
   clickTranslate env0 0
     (fst (andThen (andThen (resumeTranslate okay (TranslateDetector 1 (Some hello) ''es'') (fst twiceA))
                      okay) okay))
     = (fst (andThen (andThen (resumeTranslate okay (TranslateDetector 1 (Some hello) ''es'') (fst twiceA))
                      okay) okay), None) \<and>
   snd (handleTranslate_H env0 ''1'' home1) = Some (TranslateTranslation_H [0] 0 ''es'') \<and>
   clickTranslate_H env0 0 (fst (handleTranslate_H env0 ''1'' home1))
     = (fst (handleTranslate_H env0 ''1'' home1), None)"
proof -
  let ?t = "TranslateDetector 1 (Some hello) ''es''"
  let ?r3 = "andThen (andThen (resumeTranslate okay ?t (fst twiceA)) okay) okay"
  have 1: "handleTranslate env0 1 chat1 = (fst twiceA, Some ?t)"
    by (simp add: twiceA_def handleTranslate_def Let_def chat1_def hello_def env0_def)
  have f: "snd (handleTranslate_H env0 ''1'' home1) = Some (TranslateTranslation_H [0] 0 ''es'')"
    by (simp add: handleTranslate_H_def Let_def deref_def home1_def world_def env0_def)
  have 2: "handleTranslate_H env0 ''1'' home1
             = (fst (handleTranslate_H env0 ''1'' home1), Some (TranslateTranslation_H [0] 0 ''es''))"
    by (simp add: prod_eq_iff f)
  have 3: "resumeTranslate okay ?t (fst twiceA)
            = (fst (resumeTranslate okay ?t (fst twiceA)), Some (TranslateDetect 1 hello ''es''))"
    by (simp add: handleTranslate_detector_def okay_def)
  have 4: "id_m (messages (fst twiceA) ! 0) = 1" "0 < length (messages (fst twiceA))"
    by (simp_all add: twiceA_def handleTranslate_def Let_def chat1_def hello_def env0_def)
  have 5: "snd ?r3 = Some (TranslateTranslation 1 hello ''es'')"
    by (simp add: translate_steps okay_def Let_def)
  have 6: "0 < length (messages (fst ?r3))" "id_m (messages (fst ?r3) ! 0) = 1"
    by (simp_all add: translate_steps okay_def Let_def twiceA_def handleTranslate_def chat1_def
          hello_def env0_def)
  note T = translate_button_disabled_in_flight [OF 1]
  note T1 = T [THEN conjunct1]
  note T2 = T [THEN conjunct2, THEN conjunct1]
  note T3 = T [THEN conjunct2, THEN conjunct2, THEN conjunct1]
  note T4 = T [THEN conjunct2, THEN conjunct2, THEN conjunct2, THEN conjunct1]
  note T5 = T [THEN conjunct2, THEN conjunct2, THEN conjunct2, THEN conjunct2]
  from T1 4 have a: "clickTranslate env0 0 (fst twiceA) = (fst twiceA, None)" by blast
  note b = T2
  from T3 3 have c: "messages (fst (resumeTranslate okay ?t (fst twiceA))) = messages (fst twiceA)"
    by blast
  from T5 2 have d: "clickTranslate_H env0 0 (fst (handleTranslate_H env0 ''1'' home1))
     = (fst (handleTranslate_H env0 ''1'' home1), None)" by blast
  have s: "snd ?r3 \<noteq> None" using 5 by simp
  have g: "clickTranslate env0 0 (fst ?r3) = (fst ?r3, None)"
    by (rule T4 [rule_format, of ?r3 okay okay okay 0]) (use s 6 in blast)
  have e: "calls (fst twiceA) = [CreateDetector]"
    by (simp add: twiceA_def handleTranslate_def Let_def chat1_def env0_def)
  from 1 f 4 5 a b c d e g show ?thesis by simp
qed

text \<open>
  Claim C3 as stated fails on the handler: \<open>handleTranslate(1)\<close> invoked twice before
  any promise settles suspends twice, and when both calls have run to their end the
  translator has been asked twice for the same message and language.
\<close>

theorem second_translate_calls_again:
  "snd twiceA = Some (TranslateDetector 1 (Some hello) ''es'') \<and>
   snd twiceB = Some (TranslateDetector 1 (Some (hello\<lparr>loading := Some True\<rparr>)) ''es'') \<and>
   calls (fst twiceB) = [CreateDetector, CreateDetector] \<and>
   calls (fst (runTranslate okay (TranslateDetector 1 (Some (hello\<lparr>loading := Some True\<rparr>)) ''es'')
            (fst (runTranslate okay (TranslateDetector 1 (Some hello) ''es'') (fst twiceB)))))
     = [CreateDetector, CreateDetector,
        Detect ''Hello world'', CreateTranslator ''en'' ''es'', TranslatorTranslate ''Hello world'',
        Detect ''Hello world'', CreateTranslator ''en'' ''es'', TranslatorTranslate ''Hello world'']"
  by (simp add: twiceA_def twiceB_def handleTranslate_def runTranslate_def translate_steps Let_def
        chat1_def hello_def okay_def env0_def trim_def isWhiteSpace_def)

subsection \<open>Translate into the language of the message\<close>

text \<open>
  Claim C4, as amended. In \<open>ChatTranslator\<close>, when the language detected afresh for
  the text of the message is the selected target language, one whole Translate ends
  with the same-language alert, has issued \<open>createDetector()\<close> and \<open>detect(text)\<close>
  and nothing else (no translator is created or called), leaves the translations of
  every message as they were and \<open>loading\<close> false for the message.
\<close>

theorem same_language_short_circuit:
  assumes "translationApi env" and "find (\<lambda>msg. id_m msg = i) (messages st) = Some m"
    and "detectorO os = Resolved u" and "detectionO os = Resolved (d # ds)"
    and "detectedLanguage d = targetLanguage st"
  shows "snd (translate env os i st) = None \<and>
         calls (fst (translate env os i st)) = calls st @ [CreateDetector, Detect (trim (text_m m))] \<and>
         alerts (fst (translate env os i st))
           = alerts st @ [''Source and target languages are the same!''] \<and>
         map translations_m (messages (fst (translate env os i st))) = map translations_m (messages st) \<and>
         map loading (messages (fst (translate env os i st)))
           = map (\<lambda>msg. if id_m msg = i then Some False else loading msg) (messages st)"
  unfolding translate_same_language [OF assms]
  by (simp add: markLoading_translations markLoading_loading del: map_map)

theorem same_language_short_circuit_witness:
  "find (\<lambda>msg. id_m msg = 1) (messages chatEn) = Some hello \<and>
   detectionO okay = Resolved [\<lparr>detectedLanguage = ''en'', confidence_d = 95 / 100\<rparr>] \<and>
   targetLanguage chatEn = ''en'' \<and>
   alerts (fst (translate env0 okay 1 chatEn)) = [''Source and target languages are the same!''] \<and>
   map translations_m (messages (fst (translate env0 okay 1 chatEn))) = [translations_m hello] \<and>
   map loading (messages (fst (translate env0 okay 1 chatEn))) = [Some False]"
proof -
  have 1: "translationApi env0" by (simp add: env0_def)
  have 2: "find (\<lambda>msg. id_m msg = 1) (messages chatEn) = Some hello"
    by (simp add: chatEn_def chat1_def hello_def)
  have 3: "detectorO okay = Resolved ()" by (simp add: okay_def)
  have 4: "detectionO okay = Resolved [\<lparr>detectedLanguage = ''en'', confidence_d = 95 / 100\<rparr>]"
    by (simp add: okay_def)
  have 5: "detectedLanguage \<lparr>detectedLanguage = ''en'', confidence_d = 95 / 100\<rparr> = targetLanguage chatEn"
    by (simp add: chatEn_def)
  show ?thesis
    using 2 4 same_language_short_circuit [OF 1 2 3 4 5]
    by (simp add: chatEn_def chat1_def hello_def)
qed

text \<open>
  Claim C4 as stated fails: with the target language equal to the language of the
  message, \<open>ChatTranslator\<close> still issues two calls to the detection service before
  it stops, and \<open>Home\<close>, which has no such check, calls the translator with source
  and target both \<open>en\<close>.
\<close>

theorem same_language_detects_first:
  "calls chatEn = [] \<and> targetLanguage chatEn = ''en'' \<and>
   calls (fst (translate env0 okay 1 chatEn)) = [CreateDetector, Detect ''Hello world''] \<and>
   calls_H homeSame = [] \<and> targetLang homeSame = ''en'' \<and>
   map_option detectedLang_H (deref homeSame 0) = Some (Some ''en'') \<and>
   calls_H (translate_H env0 (Resolved ''Hello world'') ''1'' homeSame)
     = [AiTranslatorTranslate ''Hello world'' ''en'' (Some ''en'')]"
  by (simp add: translate_def handleTranslate_def runTranslate_def translate_steps Let_def
        chatEn_def chat1_def hello_def okay_def env0_def trim_def isWhiteSpace_def
        home_steps homeSame_def home1_def world_def)

subsection \<open>Clear translation\<close>

text \<open>
  Claim C5, as amended. \<open>handleClearTranslation(id)\<close> takes no language: it empties
  the whole \<open>translations\<close> object of every message \<open>id\<close> and hides the translation,
  and leaves \<open>id\<close>, \<open>text\<close>, \<open>detectedLang\<close>, \<open>confidence\<close>, \<open>loading\<close> and
  \<open>error\<close> of every message, every message with another id, the input text and the
  selected language as they were.
\<close>

theorem clear_translation_clears_all:
  "(\<forall>msg \<in> set (messages (handleClearTranslation messageId st)).
      id_m msg = messageId \<longrightarrow> translations_m msg = Map.empty \<and> showTranslation msg = False) \<and>
   list_all2 (\<lambda>old new. id_m old \<noteq> messageId \<longrightarrow> new = old)
     (messages st) (messages (handleClearTranslation messageId st)) \<and>
   map id_m (messages (handleClearTranslation messageId st)) = map id_m (messages st) \<and>
   map text_m (messages (handleClearTranslation messageId st)) = map text_m (messages st) \<and>
   map detectedLang (messages (handleClearTranslation messageId st)) = map detectedLang (messages st) \<and>
   map confidence (messages (handleClearTranslation messageId st)) = map confidence (messages st) \<and>
   map loading (messages (handleClearTranslation messageId st)) = map loading (messages st) \<and>
   map error (messages (handleClearTranslation messageId st)) = map error (messages st) \<and>
   inputText (handleClearTranslation messageId st) = inputText st \<and>
   targetLanguage (handleClearTranslation messageId st) = targetLanguage st"
proof -
  have 1: "\<forall>msg \<in> set (messages (handleClearTranslation messageId st)).
      id_m msg = messageId \<longrightarrow> translations_m msg = Map.empty \<and> showTranslation msg = False"
    unfolding handleClearTranslation_def by (simp del: set_map) (rule all_map_if; simp)
  have 2: "list_all2 (\<lambda>old new. id_m old \<noteq> messageId \<longrightarrow> new = old)
     (messages st) (messages (handleClearTranslation messageId st))"
    unfolding handleClearTranslation_def by (simp add: list_all2_map_if)
  have 3: "inputText (handleClearTranslation messageId st) = inputText st"
    "targetLanguage (handleClearTranslation messageId st) = targetLanguage st"
    by (simp_all add: handleClearTranslation_def)
  from 1 2 3 show ?thesis by (simp add: clear_keeps)
qed

theorem clear_translation_clears_all_witness:
  "id_m (messages (handleClearTranslation 1 chat1) ! 0) = 1 \<and>
   translations_m (messages (handleClearTranslation 1 chat1) ! 0) = Map.empty \<and>
   translations_m (messages (handleClearTranslation 2 chat1) ! 0) = translations_m hello \<and>
   map detectedLang (messages (handleClearTranslation 1 chat1)) = [''English'']"
  using clear_translation_clears_all [of 1 chat1] clear_translation_clears_all [of 2 chat1]
  by (simp add: chat1_def hello_def handleClearTranslation_def)

text \<open>
  Claim C5 as stated fails: a message translated into Spanish and French loses its
  French entry too, whichever language is selected.
\<close>

theorem clear_translation_at_fr:
  "translations_m (messages chat1 ! 0) ''fr'' = Some ''Bonjour le monde'' \<and>
   translations_m (messages (handleClearTranslation 1 chat1) ! 0) ''fr'' = None"
  by (simp add: chat1_def hello_def handleClearTranslation_def)

subsection \<open>Growth of the translations\<close>




subsection \<open>A failed translation\<close>



subsection \<open>The guard of Summarize\<close>

text \<open>
  Claim C8, as amended. The condition on Summarize is a condition of the page, not of
  the handler. A click on the place of the Summarize button of a message whose
  \<open>detectedLang\<close> is not \<open>en\<close> or whose text has at most 150 characters calls
  nothing and changes nothing, because no button is rendered there; where the button is
  rendered and enabled, the click is \<open>handleSummarize(message.id)\<close>.
  \<open>handleSummarize\<close> itself tests neither language nor length: for any message it
  finds, with the summarizer resolving, it calls the summarizer on the text and stores
  the summary in the message.
\<close>

theorem summarize_guard_is_the_button:
  "(i < length (messages_H st) \<and> deref st (messages_H st ! i) = Some m \<and>
    \<not> (detectedLang_H m = Some ''en'' \<and> 150 < length (text_H m))
      \<longrightarrow> clickSummarize env i st = (st, None)) \<and>
   (isClient st \<and> \<not> loading_H st \<and> i < length (messages_H st) \<and>
    deref st (messages_H st ! i) = Some m \<and>
    detectedLang_H m = Some ''en'' \<and> 150 < length (text_H m)
      \<longrightarrow> clickSummarize env i st = handleSummarize env (id_H m) st) \<and>
   (ai env \<and> summarizer env \<and>
    findIndex (\<lambda>a. case deref st a of None \<Rightarrow> False | Some m \<Rightarrow> id_H m = messageId)
      (messages_H st) = Some j \<and>
    deref st (messages_H st ! j) = Some m'
      \<longrightarrow> heap (summarize env (Resolved s) messageId st)
           = (heap st)[messages_H st ! j := m'\<lparr>summary_H := Some s\<rparr>] \<and>
          messages_H (summarize env (Resolved s) messageId st) = messages_H st \<and>
          calls_H (summarize env (Resolved s) messageId st)
           = calls_H st @ [SummarizerSummarize (text_H m')] \<and>
          error_H (summarize env (Resolved s) messageId st) = [] \<and>
          loading_H (summarize env (Resolved s) messageId st) = False)"
proof -
  have 1: "i < length (messages_H st) \<and> deref st (messages_H st ! i) = Some m \<and>
    \<not> (detectedLang_H m = Some ''en'' \<and> 150 < length (text_H m))
      \<longrightarrow> clickSummarize env i st = (st, None)"
    by (simp add: clickSummarize_def summarizeButton_def)
  have 2: "isClient st \<and> \<not> loading_H st \<and> i < length (messages_H st) \<and>
    deref st (messages_H st ! i) = Some m \<and>
    detectedLang_H m = Some ''en'' \<and> 150 < length (text_H m)
      \<longrightarrow> clickSummarize env i st = handleSummarize env (id_H m) st"
    by (simp add: clickSummarize_def summarizeButton_def)
  from 1 2 summarize_effect [where env = env and st = st and messageId = messageId and j = j
      and m = m' and s = s] show ?thesis by blast
qed

theorem summarize_guard_is_the_button_witness:
  "deref homeFr 0 = Some french \<and> detectedLang_H french = Some ''fr'' \<and>
   clickSummarize env0 0 homeFr = (homeFr, None) \<and>
   deref homeEn 0 = Some longEnglish \<and> length (text_H longEnglish) = 151 \<and>
   clickSummarize env0 0 homeEn = handleSummarize env0 ''8'' homeEn \<and>
   heap (summarize env0 (Resolved ''Un resume'') ''7'' homeFr)
     = [french\<lparr>summary_H := Some ''Un resume''\<rparr>]"
  using summarize_guard_is_the_button [where i = 0 and st = homeFr and m = french and env = env0
      and messageId = "''7''" and j = 0 and m' = french and s = "''Un resume''"]
    summarize_guard_is_the_button [where i = 0 and st = homeEn and m = longEnglish and env = env0
      and messageId = "''8''" and j = 0 and m' = longEnglish and s = "''Un resume''"]
  by (simp add: homeFr_def homeEn_def home1_def french_def longEnglish_def deref_def env0_def)

text \<open>
  Claim C8 as stated fails: \<open>handleSummarize\<close> on a message of 500 characters detected
  as \<open>fr\<close>, for which no button is rendered, calls the summarizer and sets the summary.
\<close>

theorem summarize_without_guard:
  "detectedLang_H french = Some ''fr'' \<and> length (text_H french) = 500 \<and>
   \<not> summarizeButton french \<and>
   deref homeFr 0 = Some french \<and>
   deref (summarize env0 (Resolved ''Un resume'') ''7'' homeFr) 0
     = Some (french\<lparr>summary_H := Some ''Un resume''\<rparr>) \<and>
   calls_H (summarize env0 (Resolved ''Un resume'') ''7'' homeFr)
     = [SummarizerSummarize (text_H french)]"
  by (simp add: home_steps homeFr_def home1_def french_def env0_def summarizeButton_def)

subsection \<open>The error of a message\<close>

text \<open>
  Claim C9, as amended. In \<open>ChatTranslator\<close> nothing clears the \<open>error\<close> of a
  message: a successful translation leaves the \<open>error\<close> of every message as it was, so
  does \<open>handleClearTranslation\<close>, and after invoking or resuming \<open>handleTranslate\<close>
  in any way a message that had an \<open>error\<close> still has one.
\<close>

theorem success_keeps_error:
  "map error (messages (fst (handleTranslate_translation i m g (Resolved tr) st)))
     = map error (messages st) \<and>
   map error (messages (handleClearTranslation i st)) = map error (messages st) \<and>
   list_all2 (\<lambda>old new. error old \<noteq> None \<longrightarrow> error new \<noteq> None)
     (messages st) (messages (fst (resumeTranslate os t st))) \<and>
   list_all2 (\<lambda>old new. error old \<noteq> None \<longrightarrow> error new \<noteq> None)
     (messages st) (messages (fst (handleTranslate env i st)))"
proof -
  have 3: "list_all2 (\<lambda>old new. error old \<noteq> None \<longrightarrow> error new \<noteq> None)
     (messages st) (messages (fst (resumeTranslate os t st)))"
    by (rule resume_rel) simp_all
  have 4: "list_all2 (\<lambda>old new. error old \<noteq> None \<longrightarrow> error new \<noteq> None)
     (messages st) (messages (fst (handleTranslate env i st)))"
    by (rule issue_rel) simp_all
  from 3 4 show ?thesis by (simp add: success_error clear_error)
qed

theorem success_keeps_error_witness:
  "error (messages chatErr ! 0) \<noteq> None \<and>
   map error (messages (fst (handleTranslate_translation 1 hello ''de'' (Resolved ''Hallo Welt'') chatErr)))
     = [Some ''Translation failed. Please try another language pair.''] \<and>
   error (messages (fst (resumeTranslate okay (TranslateTranslation 1 hello ''de'') chatErr)) ! 0) \<noteq> None \<and>
   error (messages (fst (handleTranslate env0 1 chatErr)) ! 0) \<noteq> None"
  using success_keeps_error [of 1 hello "''de''" "''Hallo Welt''" chatErr okay
      "TranslateTranslation 1 hello ''de''" env0]
  by (simp add: chatErr_def chat1_def hello_def okay_def env0_def translate_steps handleTranslate_def
        Let_def)

text \<open>
  Claim C9 as stated fails: a message carrying the error of a failed translation,
  translated successfully into German, has the German entry and still the error.
\<close>

theorem error_survives_success:
  "error (messages chatErr ! 0) = Some ''Translation failed. Please try another language pair.'' \<and>
   translations_m (messages (fst (translate env0 okay 1 chatErr)) ! 0) ''de'' = Some ''Hallo Welt'' \<and>
   error (messages (fst (translate env0 okay 1 chatErr)) ! 0)
     = Some ''Translation failed. Please try another language pair.''"
  by (simp add: translate_def handleTranslate_def runTranslate_def translate_steps Let_def
        chatErr_def chat1_def hello_def okay_def env0_def)

subsection \<open>The source language of a translation\<close>

text \<open>
  Claim C10. In \<open>ChatTranslator\<close>, for a message in the list and the detector
  available, every Translate issues \<open>createDetector()\<close> and then \<open>detect\<close> on the
  trimmed text of the message, and the first language of that result is what is
  compared with the selected target language (equal: the alert, and no further call;
  different: no alert, and \<open>createTranslator\<close> with that language as source, then
  \<open>translate\<close>). The stored \<open>detectedLang\<close> is not read: replacing it by anything
  in every message changes neither the calls nor the alerts. It holds the display name
  that \<open>handleSubmit\<close> obtained from \<open>Intl.DisplayNames\<close> for the detected tag.
\<close>

theorem translate_detects_afresh:
  assumes "translationApi env" and "find (\<lambda>msg. id_m msg = i) (messages st) = Some m"
    and "detectorO os = Resolved u" and "detectionO os = Resolved (d # ds)"
  shows "(detectedLanguage d = targetLanguage st \<longrightarrow>
            calls (fst (translate env os i st)) = calls st @ [CreateDetector, Detect (trim (text_m m))] \<and>
            alerts (fst (translate env os i st))
              = alerts st @ [''Source and target languages are the same!'']) \<and>
         (detectedLanguage d \<noteq> targetLanguage st \<longrightarrow>
            alerts (fst (translate env os i st)) = alerts st \<and>
            (\<exists>rest. calls (fst (translate env os i st)) =
               calls st @ [CreateDetector, Detect (trim (text_m m)),
                           CreateTranslator (detectedLanguage d) (targetLanguage st)] @ rest)) \<and>
         (detectedLanguage d \<noteq> targetLanguage st \<and> translatorO os = Resolved v \<and>
          translationO os = Resolved tr \<longrightarrow>
            calls (fst (translate env os i st)) =
               calls st @ [CreateDetector, Detect (trim (text_m m)),
                           CreateTranslator (detectedLanguage d) (targetLanguage st),
                           TranslatorTranslate (trim (text_m m))]) \<and>
         calls (fst (translate env os i
                   (st\<lparr>messages := map (\<lambda>msg. msg\<lparr>detectedLang := f msg\<rparr>) (messages st)\<rparr>)))
           = calls (fst (translate env os i st)) \<and>
         alerts (fst (translate env os i
                   (st\<lparr>messages := map (\<lambda>msg. msg\<lparr>detectedLang := f msg\<rparr>) (messages st)\<rparr>)))
           = alerts (fst (translate env os i st)) \<and>
         (displayNames env (detectedLanguage d) = Some name \<longrightarrow>
            map detectedLang (messages (fst (handleSubmit_detect env newMessage (Resolved (d # ds)) st)))
              = name # map detectedLang (messages st))"
proof -
  have 1: "detectedLanguage d = targetLanguage st \<longrightarrow>
            calls (fst (translate env os i st)) = calls st @ [CreateDetector, Detect (trim (text_m m))] \<and>
            alerts (fst (translate env os i st))
              = alerts st @ [''Source and target languages are the same!'']"
    using translate_same_language [OF assms] by simp
  have 2: "detectedLanguage d \<noteq> targetLanguage st \<longrightarrow>
            alerts (fst (translate env os i st)) = alerts st \<and>
            (\<exists>rest. calls (fst (translate env os i st)) =
               calls st @ [CreateDetector, Detect (trim (text_m m)),
                           CreateTranslator (detectedLanguage d) (targetLanguage st)] @ rest)"
    using translate_other_language_prefix [OF assms] by blast
  have 3: "detectedLanguage d \<noteq> targetLanguage st \<and> translatorO os = Resolved v \<and>
          translationO os = Resolved tr \<longrightarrow>
            calls (fst (translate env os i st)) =
               calls st @ [CreateDetector, Detect (trim (text_m m)),
                           CreateTranslator (detectedLanguage d) (targetLanguage st),
                           TranslatorTranslate (trim (text_m m))]"
    using translate_other_language [OF assms] by simp
  have 4: "displayNames env (detectedLanguage d) = Some name \<longrightarrow>
            map detectedLang (messages (fst (handleSubmit_detect env newMessage (Resolved (d # ds)) st)))
              = name # map detectedLang (messages st)"
    by (simp add: submit_display_name)
  from 1 2 3 4 translate_ignores_detectedLang [of env os i f st] show ?thesis by blast
qed

theorem translate_detects_afresh_witness:
  "find (\<lambda>msg. id_m msg = 1) (messages chat1) = Some hello \<and>
   detectedLang hello = ''English'' \<and>
   detectionO okay = Resolved [\<lparr>detectedLanguage = ''en'', confidence_d = 95 / 100\<rparr>] \<and>
   calls (fst (translate env0 okay 1 chat1)) =
     [CreateDetector, Detect (trim ''Hello world''), CreateTranslator ''en'' ''es'',
      TranslatorTranslate (trim ''Hello world'')] \<and>
   calls (fst (translate env0 okay 1 chatEn)) = [CreateDetector, Detect (trim ''Hello world'')] \<and>
   map detectedLang (messages (fst (handleSubmit_detect env0 hello
       (Resolved [\<lparr>detectedLanguage = ''en'', confidence_d = 95 / 100\<rparr>]) chat1)))
     = [''English'', ''English'']"
proof -
  have 1: "translationApi env0" by (simp add: env0_def)
  have 2: "find (\<lambda>msg. id_m msg = 1) (messages chat1) = Some hello"
    by (simp add: chat1_def hello_def)
  have e2: "find (\<lambda>msg. id_m msg = 1) (messages chatEn) = Some hello"
    by (simp add: chatEn_def chat1_def hello_def)
  have 3: "detectorO okay = Resolved ()" by (simp add: okay_def)
  have 4: "detectionO okay = Resolved [\<lparr>detectedLanguage = ''en'', confidence_d = 95 / 100\<rparr>]"
    by (simp add: okay_def)
  show ?thesis
    using 2 4 translate_detects_afresh [where v = "()" and tr = "''Hallo Welt''" and f = "\<lambda>msg. ''en''"
        and name = "''English''" and newMessage = hello, OF 1 2 3 4]
      translate_detects_afresh [where v = "()" and tr = "''Hallo Welt''" and f = "\<lambda>msg. ''en''"
        and name = "''English''" and newMessage = hello, OF 1 e2 3 4]
    by (simp add: chat1_def chatEn_def hello_def okay_def env0_def)
qed

end
